theory Spec2Isabelle
  imports Main "HOL-Library.Word" "HOL-Library.AList"
begin

section \<open>Data model of chrome/browser/prerender/prerender_contents.cc\<close>

text \<open>
  The enumerations below are declared in headers that accompany the file
  (prerender_final_status.h, prerender_contents.h, prerender_origin.h). Every
  enumerator that prerender_contents.cc names is present; \<open>ORIGIN_OTHER\<close> stands for
  the origins it does not name. \<open>FINAL_STATUS_USED\<close> is the first enumerator and
  \<open>FINAL_STATUS_MAX\<close> the sentinel after the last one, so the range check
  \<open>FINAL_STATUS_USED <= s < FINAL_STATUS_MAX\<close> holds for every status but the sentinel.
\<close>

datatype FinalStatus =
    FINAL_STATUS_USED
  | FINAL_STATUS_TIMED_OUT
  | FINAL_STATUS_CANCELLED
  | FINAL_STATUS_OPEN_URL
  | FINAL_STATUS_DOWNLOAD
  | FINAL_STATUS_JS_OUT_OF_MEMORY
  | FINAL_STATUS_JAVASCRIPT_ALERT
  | FINAL_STATUS_REGISTER_PROTOCOL_HANDLER
  | FINAL_STATUS_PROFILE_DESTROYED
  | FINAL_STATUS_APP_TERMINATING
  | FINAL_STATUS_UNSUPPORTED_SCHEME
  | FINAL_STATUS_HTTPS
  | FINAL_STATUS_RECENTLY_VISITED
  | FINAL_STATUS_RENDERER_CRASHED
  | FINAL_STATUS_NEW_NAVIGATION_ENTRY
  | FINAL_STATUS_MEMORY_LIMIT_EXCEEDED
  | FINAL_STATUS_WINDOW_PRINT
  | FINAL_STATUS_MAX

datatype MatchCompleteStatus =
    MATCH_COMPLETE_DEFAULT
  | MATCH_COMPLETE_REPLACEMENT
  | MATCH_COMPLETE_REPLACEMENT_PENDING

datatype Origin =
    ORIGIN_OMNIBOX
  | ORIGIN_INSTANT
  | ORIGIN_LOCAL_PREDICTOR
  | ORIGIN_OTHER
  | ORIGIN_MAX

text \<open>
  A \<open>GURL\<close> is a canonical URL: its scheme and whatever follows the colon. Two URLs are
  equal when their specs are, and \<open>SchemeIs\<close> compares the scheme with a constant.
\<close>

datatype GURL = GURL (scheme: string) (after_scheme: string)

definition kHttpScheme :: string where
  "kHttpScheme = ''http''"

definition kHttpsScheme :: string where
  "kHttpsScheme = ''https''"

definition SchemeIs :: "GURL \<Rightarrow> string \<Rightarrow> bool" where
  "SchemeIs url s = (scheme url = s)"

datatype Referrer = Referrer GURL

datatype SessionStorageNamespace = SessionStorageNamespace (namespace_id: int)

text \<open>The hidden session: the only thing this file reads from its controller is the
  number of navigation entries.\<close>

datatype WebContents = WebContents (GetEntryCount: int)

text \<open>An entry handed to \<open>DidNavigate\<close>; the file stores and forwards it unread.\<close>

datatype HistoryAddPageArgs = HistoryAddPageArgs GURL int

record PrerenderContents =
  prerendering_has_started :: bool
  session_storage_namespace_id :: int
  prerender_url :: GURL
  referrer :: Referrer
  has_stopped_loading :: bool
  has_finished_loading :: bool
  final_status :: FinalStatus
  match_complete_status :: MatchCompleteStatus
  prerendering_has_been_cancelled :: bool
  child_id :: int
  route_id :: int
  origin :: Origin
  experiment_id :: "8 word"
  creator_child_id :: int
  cookie_status :: int
  load_start_time :: nat
  alias_urls :: "GURL list"
  add_page_vector :: "HistoryAddPageArgs list"
  observer_list :: "nat list"
  prerender_contents :: "WebContents option"

text \<open>The constructor. Members it does not name start empty (vectors, the observer
  list), null (the session pointer, the load start time).\<close>

definition PrerenderContents_new ::
  "GURL \<Rightarrow> Referrer \<Rightarrow> Origin \<Rightarrow> 8 word \<Rightarrow> PrerenderContents" where
  "PrerenderContents_new url ref orig exp_id =
     \<lparr> prerendering_has_started = False,
       session_storage_namespace_id = - 1,
       prerender_url = url,
       referrer = ref,
       has_stopped_loading = False,
       has_finished_loading = False,
       final_status = FINAL_STATUS_MAX,
       match_complete_status = MATCH_COMPLETE_DEFAULT,
       prerendering_has_been_cancelled = False,
       child_id = - 1,
       route_id = - 1,
       origin = orig,
       experiment_id = exp_id,
       creator_child_id = - 1,
       cookie_status = 0,
       load_start_time = 0,
       alias_urls = [],
       add_page_vector = [],
       observer_list = [],
       prerender_contents = None \<rparr>"

subsection \<open>Assertions and collaborators\<close>

text \<open>
  A failed \<open>DCHECK\<close>, \<open>CHECK\<close> or \<open>NOTREACHED\<close> ends the process; the model returns it
  as a value naming the place. \<open>front()\<close> of an empty vector and a call through a null
  pointer have no defined result and are failures as well.
\<close>

datatype assertion =
    Destroy_status_not_USED
  | SetFinalStatus_argument_in_range
  | SetFinalStatus_still_unset
  | NotifyPrerenderStop_status_set
  | CheckURL_not_replacement_pending
  | Replacement_did_init
  | Replacement_same_front
  | Replacement_one_alias

datatype failure =
    DCHECK_failed assertion
  | CHECK_failed
  | NOTREACHED_hit
  | front_of_empty_vector
  | null_dereference

text \<open>What leaves the record: calls into the manager, observer notifications and
  messages to the render process hosts, in the order they are made.\<close>

datatype event =
    Manager_AddToHistory
  | Manager_MoveEntryToPendingDelete FinalStatus
  | Observer_OnPrerenderStop nat
  | Observer_OnPrerenderCreatedMatchCompleteReplacement nat
  | Host_OnPrerenderAddAlias int GURL

text \<open>
  The tracker and the manager are collaborators whose code is elsewhere. The model
  takes them as parameters: the tracker as two operations over a state of any type
  \<open>'t\<close>, the manager as its configuration and the answers it gives. By the comment in
  \<open>Destroy\<close>, \<open>MoveEntryToPendingDelete\<close> may turn the record into a match-complete
  replacement, so the manager supplies the match-complete status the record has after
  that call. The render process hosts that \<open>AllHostsIterator\<close> walks are listed with
  the manager.
\<close>

record 't PrerenderTracker =
  TryCancel :: "'t \<Rightarrow> int \<Rightarrow> int \<Rightarrow> FinalStatus \<Rightarrow> bool \<times> 't"
  GetFinalStatus :: "'t \<Rightarrow> int \<Rightarrow> int \<Rightarrow> FinalStatus option"

record 't PrerenderManager =
  https_allowed :: bool
  HasRecentlyBeenNavigatedTo :: "Origin \<Rightarrow> GURL \<Rightarrow> bool"
  IsControlGroup :: "8 word \<Rightarrow> bool"
  MoveEntryToPendingDelete :: "PrerenderContents \<Rightarrow> FinalStatus \<Rightarrow> MatchCompleteStatus"
  prerender_tracker :: "'t PrerenderTracker"
  AllHosts :: "int list"

text \<open>The record together with the tracker's state and the events emitted so far.\<close>

record 't system =
  contents :: PrerenderContents
  tracker :: 't
  events :: "event list"

text \<open>
  Modelled from the spec: the tracker (prerender_tracker.cc), a map from (process id,
  route id) to a final status, kept as an association list. \<open>TryCancel\<close> writes the
  requested status if none is set and reports whether the recorded status is a
  cancellation; \<open>GetFinalStatus\<close> reads the recorded status, if the pair is known. It
  instantiates the tracker parameter at concrete inputs.
\<close>

type_synonym tracker_map = "((int \<times> int) \<times> FinalStatus) list"

definition PrerenderTracker_TryCancel ::
  "tracker_map \<Rightarrow> int \<Rightarrow> int \<Rightarrow> FinalStatus \<Rightarrow> bool \<times> tracker_map" where
  "PrerenderTracker_TryCancel m child route fs =
     (case map_of m (child, route) of
        None \<Rightarrow> (False, m)
      | Some cur \<Rightarrow>
          (let now = (if cur = FINAL_STATUS_MAX then fs else cur)
           in (now \<noteq> FINAL_STATUS_USED \<and> now \<noteq> FINAL_STATUS_MAX,
               AList.update (child, route) now m)))"

definition PrerenderTracker_GetFinalStatus ::
  "tracker_map \<Rightarrow> int \<Rightarrow> int \<Rightarrow> FinalStatus option" where
  "PrerenderTracker_GetFinalStatus m child route = map_of m (child, route)"

definition map_tracker :: "tracker_map PrerenderTracker" where
  "map_tracker =
     \<lparr> TryCancel = PrerenderTracker_TryCancel,
       GetFinalStatus = PrerenderTracker_GetFinalStatus \<rparr>"

section \<open>The operations\<close>

subsection \<open>SetFinalStatus, NotifyPrerenderStop, Destroy\<close>

text \<open>The first assertion of \<open>SetFinalStatus\<close> is the range check on the argument, the
  second that no status has been set.\<close>

definition SetFinalStatus :: "FinalStatus \<Rightarrow> PrerenderContents \<Rightarrow> failure + PrerenderContents" where
  "SetFinalStatus fs c =
     (if fs = FINAL_STATUS_MAX then Inl (DCHECK_failed SetFinalStatus_argument_in_range)
      else if final_status c \<noteq> FINAL_STATUS_MAX then Inl (DCHECK_failed SetFinalStatus_still_unset)
      else Inr (c\<lparr>final_status := fs\<rparr>))"

definition NotifyPrerenderStop :: "'t system \<Rightarrow> failure + 't system" where
  "NotifyPrerenderStop s =
     (if final_status (contents s) = FINAL_STATUS_MAX
      then Inl (DCHECK_failed NotifyPrerenderStop_status_set)
      else Inr (s\<lparr> events := events s @ map Observer_OnPrerenderStop (observer_list (contents s)),
                  contents := (contents s)\<lparr>observer_list := []\<rparr> \<rparr>))"

text \<open>The block of \<open>Destroy\<close> that runs once a process id and a route id are assigned:
  the status to record and the tracker's state afterwards.\<close>

definition Destroy_tracker ::
  "'t PrerenderTracker \<Rightarrow> int \<Rightarrow> int \<Rightarrow> FinalStatus \<Rightarrow> 't \<Rightarrow> failure + (FinalStatus \<times> 't)" where
  "Destroy_tracker trk child route fs t =
     (case TryCancel trk t child route fs of
        (is_cancelled, t') \<Rightarrow>
          if \<not> is_cancelled then Inl CHECK_failed
          else (case GetFinalStatus trk t' child route of
                  None \<Rightarrow> Inl NOTREACHED_hit
                | Some fs' \<Rightarrow> Inr (fs', t')))"

definition Destroy :: "'t PrerenderManager \<Rightarrow> FinalStatus \<Rightarrow> 't system \<Rightarrow> failure + 't system" where
  "Destroy mgr fs s =
     (if fs = FINAL_STATUS_USED then Inl (DCHECK_failed Destroy_status_not_USED)
      else if prerendering_has_been_cancelled (contents s) then Inr s
      else
        (case (if child_id (contents s) \<noteq> - 1 \<and> route_id (contents s) \<noteq> - 1
               then Destroy_tracker (prerender_tracker mgr)
                      (child_id (contents s)) (route_id (contents s)) fs (tracker s)
               else Inr (fs, tracker s)) of
           Inl e \<Rightarrow> Inl e
         | Inr (fs', t') \<Rightarrow>
             (case SetFinalStatus fs' (contents s) of
                Inl e \<Rightarrow> Inl e
              | Inr c1 \<Rightarrow>
                  (let c2 = c1\<lparr>prerendering_has_been_cancelled := True\<rparr>;
                       c3 = c2\<lparr>match_complete_status := MoveEntryToPendingDelete mgr c2 fs'\<rparr>;
                       s3 = \<lparr> contents = c3, tracker = t',
                              events = events s @
                                [Manager_AddToHistory, Manager_MoveEntryToPendingDelete fs'] \<rparr>
                   in if \<not> IsControlGroup mgr (experiment_id c3) \<and>
                         (prerendering_has_started c3 \<or>
                          match_complete_status c3 = MATCH_COMPLETE_REPLACEMENT)
                      then NotifyPrerenderStop s3
                      else Inr s3))))"

subsection \<open>CheckURL, AddAliasURL, Init, Matches\<close>

definition CheckURL :: "'t PrerenderManager \<Rightarrow> GURL \<Rightarrow> 't system \<Rightarrow> failure + (bool \<times> 't system)" where
  "CheckURL mgr url s =
     (let http = SchemeIs url kHttpScheme;
          https = SchemeIs url kHttpsScheme
      in if \<not> http \<and> \<not> https then
           (if match_complete_status (contents s) = MATCH_COMPLETE_REPLACEMENT_PENDING
            then Inl (DCHECK_failed CheckURL_not_replacement_pending)
            else (case Destroy mgr FINAL_STATUS_UNSUPPORTED_SCHEME s of
                    Inl e \<Rightarrow> Inl e
                  | Inr s' \<Rightarrow> Inr (False, s')))
         else if https \<and> \<not> https_allowed mgr then
           (if match_complete_status (contents s) = MATCH_COMPLETE_REPLACEMENT_PENDING
            then Inl (DCHECK_failed CheckURL_not_replacement_pending)
            else (case Destroy mgr FINAL_STATUS_HTTPS s of
                    Inl e \<Rightarrow> Inl e
                  | Inr s' \<Rightarrow> Inr (False, s')))
         else if match_complete_status (contents s) \<noteq> MATCH_COMPLETE_REPLACEMENT_PENDING \<and>
                 HasRecentlyBeenNavigatedTo mgr (origin (contents s)) url then
           (case Destroy mgr FINAL_STATUS_RECENTLY_VISITED s of
              Inl e \<Rightarrow> Inl e
            | Inr s' \<Rightarrow> Inr (False, s'))
         else Inr (True, s))"

definition AddAliasURL :: "'t PrerenderManager \<Rightarrow> GURL \<Rightarrow> 't system \<Rightarrow> failure + (bool \<times> 't system)" where
  "AddAliasURL mgr url s =
     (case CheckURL mgr url s of
        Inl e \<Rightarrow> Inl e
      | Inr (ok, s') \<Rightarrow>
          if \<not> ok then Inr (False, s')
          else Inr (True,
                 s'\<lparr> contents := (contents s')\<lparr>alias_urls := alias_urls (contents s') @ [url]\<rparr>,
                     events := events s' @
                       map (\<lambda>host. Host_OnPrerenderAddAlias host url) (AllHosts mgr) \<rparr>))"

definition Init :: "'t PrerenderManager \<Rightarrow> 't system \<Rightarrow> failure + (bool \<times> 't system)" where
  "Init mgr s = AddAliasURL mgr (prerender_url (contents s)) s"

definition count_if :: "('a \<Rightarrow> bool) \<Rightarrow> 'a list \<Rightarrow> nat" where
  "count_if p xs = length (filter p xs)"

definition Matches :: "PrerenderContents \<Rightarrow> GURL \<Rightarrow> SessionStorageNamespace option \<Rightarrow> bool" where
  "Matches c url session_storage_namespace =
     (case session_storage_namespace of
        None \<Rightarrow> count_if (\<lambda>a. a = url) (alias_urls c) \<noteq> 0
      | Some ns \<Rightarrow>
          if session_storage_namespace_id c \<noteq> namespace_id ns then False
          else count_if (\<lambda>a. a = url) (alias_urls c) \<noteq> 0)"

subsection \<open>DidNavigateMainFrame\<close>

text \<open>The loop over \<open>params.redirects\<close>, from index \<open>i\<close> on.\<close>

fun AddAliasURL_each :: "'t PrerenderManager \<Rightarrow> GURL list \<Rightarrow> 't system \<Rightarrow> failure + 't system" where
  "AddAliasURL_each mgr [] s = Inr s"
| "AddAliasURL_each mgr (url # rest) s =
     (case AddAliasURL mgr url s of
        Inl e \<Rightarrow> Inl e
      | Inr (ok, s') \<Rightarrow> if \<not> ok then Inr s' else AddAliasURL_each mgr rest s')"

definition DidNavigateMainFrame :: "'t PrerenderManager \<Rightarrow> GURL list \<Rightarrow> 't system \<Rightarrow> failure + 't system" where
  "DidNavigateMainFrame mgr redirects s =
     (case prerender_contents (contents s) of
        None \<Rightarrow> Inl null_dereference
      | Some wc \<Rightarrow>
          if GetEntryCount wc > 1 then Destroy mgr FINAL_STATUS_NEW_NAVIGATION_ENTRY s
          else AddAliasURL_each mgr redirects s)"

subsection \<open>DidNavigate, CommitHistory\<close>

definition DidNavigate :: "HistoryAddPageArgs \<Rightarrow> PrerenderContents \<Rightarrow> PrerenderContents" where
  "DidNavigate add_page_args c = c\<lparr>add_page_vector := add_page_vector c @ [add_page_args]\<rparr>"

text \<open>The history helper of the target tab is the list of entries it has been given,
  oldest first.\<close>

definition UpdateHistoryForNavigation :: "HistoryAddPageArgs list \<Rightarrow> HistoryAddPageArgs \<Rightarrow> HistoryAddPageArgs list" where
  "UpdateHistoryForNavigation history_tab_helper a = history_tab_helper @ [a]"

function CommitHistory_from :: "nat \<Rightarrow> HistoryAddPageArgs list \<Rightarrow> HistoryAddPageArgs list \<Rightarrow> HistoryAddPageArgs list" where
  "CommitHistory_from i v history_tab_helper =
     (if i < length v
      then CommitHistory_from (i + 1) v (UpdateHistoryForNavigation history_tab_helper (v ! i))
      else history_tab_helper)"
  by pat_completeness auto
termination
  by (relation "measure (\<lambda>(i, v, h). length v - i)") auto

declare CommitHistory_from.simps [simp del]

definition CommitHistory :: "PrerenderContents \<Rightarrow> HistoryAddPageArgs list \<Rightarrow> HistoryAddPageArgs list" where
  "CommitHistory c history_tab_helper = CommitHistory_from 0 (add_page_vector c) history_tab_helper"

subsection \<open>CreateMatchCompleteReplacement\<close>

text \<open>
  \<open>PrerenderManager::CreatePrerenderContents\<close> hands the four arguments to the factory,
  whose implementation in this file calls the constructor.
\<close>

definition CreatePrerenderContents ::
  "GURL \<Rightarrow> Referrer \<Rightarrow> Origin \<Rightarrow> 8 word \<Rightarrow> PrerenderContents" where
  "CreatePrerenderContents url ref orig exp_id = PrerenderContents_new url ref orig exp_id"

text \<open>The first half of \<open>CreateMatchCompleteReplacement\<close>, up to and including the call
  of \<open>Init\<close> on the new record: the value of \<open>did_init\<close> and the new record's system at
  the point where the assertions are evaluated.\<close>

definition Replacement_Init :: "'t PrerenderManager \<Rightarrow> 't system \<Rightarrow> failure + (bool \<times> 't system)" where
  "Replacement_Init mgr s =
     (let c = contents s;
          n0 = CreatePrerenderContents (prerender_url c) (referrer c) (origin c) (experiment_id c);
          n1 = n0\<lparr> load_start_time := load_start_time c,
                   session_storage_namespace_id := session_storage_namespace_id c,
                   match_complete_status := MATCH_COMPLETE_REPLACEMENT_PENDING \<rparr>
      in Init mgr (s\<lparr>contents := n1\<rparr>))"

definition front :: "'a list \<Rightarrow> failure + 'a" where
  "front xs = (case xs of [] \<Rightarrow> Inl front_of_empty_vector | x # _ \<Rightarrow> Inr x)"

text \<open>The result is the original's system (its record, the tracker, the events) and
  the new record.\<close>

definition CreateMatchCompleteReplacement ::
  "'t PrerenderManager \<Rightarrow> 't system \<Rightarrow> failure + ('t system \<times> PrerenderContents)" where
  "CreateMatchCompleteReplacement mgr s =
     (case Replacement_Init mgr s of
        Inl e \<Rightarrow> Inl e
      | Inr (did_init, sn) \<Rightarrow>
          if \<not> did_init then Inl (DCHECK_failed Replacement_did_init)
          else
            (case front (alias_urls (contents s)) of
               Inl e \<Rightarrow> Inl e
             | Inr a \<Rightarrow>
                 (case front (alias_urls (contents sn)) of
                    Inl e \<Rightarrow> Inl e
                  | Inr b \<Rightarrow>
                      if a \<noteq> b then Inl (DCHECK_failed Replacement_same_front)
                      else if length (alias_urls (contents sn)) \<noteq> 1
                      then Inl (DCHECK_failed Replacement_one_alias)
                      else
                        Inr (\<lparr> contents = contents s, tracker = tracker sn,
                               events = events sn @
                                 map Observer_OnPrerenderCreatedMatchCompleteReplacement
                                   (observer_list (contents s)) \<rparr>,
                             (contents sn)\<lparr> alias_urls := alias_urls (contents s),
                                            match_complete_status := MATCH_COMPLETE_REPLACEMENT \<rparr>))))"

section \<open>chrome/browser/password_manager/login_database_mac.cc\<close>

text \<open>The result codes are declared in login_database.h; this file returns only the
  first. A \<open>base::string16\<close> is a sequence of 16-bit code units, a \<open>std::string\<close> a
  sequence of bytes. Each function overwrites the string its second argument points
  to, whose previous content is the second argument here, and returns the code together
  with the string's new content.\<close>

datatype EncryptionResult =
    ENCRYPTION_RESULT_SUCCESS
  | ENCRYPTION_RESULT_ITEM_FAILURE
  | ENCRYPTION_RESULT_SERVICE_FAILURE

type_synonym string16 = "16 word list"

definition EncryptedString :: "string16 \<Rightarrow> string \<Rightarrow> EncryptionResult \<times> string" where
  "EncryptedString plain_text cipher_text = (ENCRYPTION_RESULT_SUCCESS, [])"

definition DecryptedString :: "string \<Rightarrow> string16 \<Rightarrow> EncryptionResult \<times> string16" where
  "DecryptedString cipher_text plain_text = (ENCRYPTION_RESULT_SUCCESS, [])"

section \<open>Auxiliary notions\<close>

text \<open>The three tests of \<open>CheckURL\<close> as one condition on the URL, the configuration and
  the record: the URL is accepted when none of them rejects it.\<close>

definition CheckURL_passes :: "'t PrerenderManager \<Rightarrow> PrerenderContents \<Rightarrow> GURL \<Rightarrow> bool" where
  "CheckURL_passes mgr c url =
     ((SchemeIs url kHttpScheme \<or> SchemeIs url kHttpsScheme) \<and>
      \<not> (SchemeIs url kHttpsScheme \<and> \<not> https_allowed mgr) \<and>
      \<not> (match_complete_status c \<noteq> MATCH_COMPLETE_REPLACEMENT_PENDING \<and>
         HasRecentlyBeenNavigatedTo mgr (origin c) url))"

text \<open>The messages \<open>AddAliasURL\<close> sends for one URL, and for a list of them.\<close>

definition alias_broadcast :: "'t PrerenderManager \<Rightarrow> GURL \<Rightarrow> event list" where
  "alias_broadcast mgr url = map (\<lambda>host. Host_OnPrerenderAddAlias host url) (AllHosts mgr)"

text \<open>A run of \<open>Destroy\<close> calls on one record, one reason after the other.\<close>

fun Destroy_again :: "'t PrerenderManager \<Rightarrow> FinalStatus list \<Rightarrow> 't system \<Rightarrow> failure + 't system" where
  "Destroy_again mgr [] s = Inr s"
| "Destroy_again mgr (fs # later) s =
     (case Destroy mgr fs s of Inl e \<Rightarrow> Inl e | Inr s' \<Rightarrow> Destroy_again mgr later s')"

section \<open>Concrete inputs\<close>

text \<open>
  A manager that allows https, has seen one recent navigation (to
  \<open>http://visited.example/\<close>), has no control group and leaves the match-complete
  status of a deleted entry alone; it owns a map tracker and two render process hosts.
\<close>

definition example_manager :: "tracker_map PrerenderManager" where
  "example_manager =
     \<lparr> https_allowed = True,
       HasRecentlyBeenNavigatedTo = (\<lambda>orig url. url = GURL ''http'' ''//visited.example/''),
       IsControlGroup = (\<lambda>exp_id. False),
       MoveEntryToPendingDelete = (\<lambda>c fs. match_complete_status c),
       prerender_tracker = map_tracker,
       AllHosts = [1, 2] \<rparr>"

text \<open>A record as the constructor leaves it, and the same record once prerendering has
  started: one alias, one observer, a hidden session with one navigation entry,
  process 5 and route 9.\<close>

definition new_contents :: PrerenderContents where
  "new_contents =
     PrerenderContents_new (GURL ''http'' ''//a.com/'') (Referrer (GURL ''http'' ''//r.com/''))
       ORIGIN_OMNIBOX 0"

definition started_contents :: PrerenderContents where
  "started_contents =
     new_contents\<lparr> prerendering_has_started := True,
                    session_storage_namespace_id := 3,
                    child_id := 5,
                    route_id := 9,
                    alias_urls := [GURL ''http'' ''//a.com/''],
                    observer_list := [0],
                    prerender_contents := Some (WebContents 1) \<rparr>"

text \<open>Systems: the new record with an empty tracker; the started record with the
  tracker holding no status for (5, 9) yet; and the started record after another thread
  has cancelled (5, 9) with \<open>FINAL_STATUS_TIMED_OUT\<close> through the tracker.\<close>

definition new_system :: "tracker_map system" where
  "new_system = \<lparr> contents = new_contents, tracker = [], events = [] \<rparr>"

definition started_system :: "tracker_map system" where
  "started_system =
     \<lparr> contents = started_contents,
       tracker = [((5, 9), FINAL_STATUS_MAX)],
       events = [] \<rparr>"

definition raced_system :: "tracker_map system" where
  "raced_system =
     \<lparr> contents = started_contents,
       tracker = [((5, 9), FINAL_STATUS_TIMED_OUT)],
       events = [] \<rparr>"

section \<open>Properties\<close>

subsection \<open>The password shim\<close>

text \<open>
  C10, as stated, fails at the empty plain text: encrypting it and decrypting the result
  gives the empty string, which is the plain text itself, so the round trip does
  recover \<open>p\<close> there.
\<close>

theorem login_database_mac_counterexample:
  "snd (DecryptedString (snd (EncryptedString [] ''old cipher text'')) [1, 2]) = []"
  by (simp add: EncryptedString_def DecryptedString_def)

text \<open>
  C10, amended. On this platform encryption is lossy: \<open>EncryptedString\<close> returns success
  and leaves the empty cipher text whatever the plain text (and whatever the cipher text
  held before), \<open>DecryptedString\<close> returns success and leaves the empty plain text
  whatever the cipher text, so decrypting what was encrypted gives the empty string for
  every plain text \<open>p\<close>, and gives back \<open>p\<close> exactly when \<open>p\<close> is empty: no non-empty
  plain text is recovered.
\<close>

theorem login_database_mac_lossy:
  "EncryptedString p c0 = (ENCRYPTION_RESULT_SUCCESS, [])
   \<and> DecryptedString c p0 = (ENCRYPTION_RESULT_SUCCESS, [])
   \<and> DecryptedString (snd (EncryptedString p c0)) p0 = (ENCRYPTION_RESULT_SUCCESS, [])
   \<and> ((snd (DecryptedString (snd (EncryptedString p c0)) p0) = p) = (p = []))"
  by (auto simp: EncryptedString_def DecryptedString_def)

subsection \<open>The final status is written once\<close>

lemma SetFinalStatus_Inr_iff:
  "(SetFinalStatus fs c = Inr c') =
   (fs \<noteq> FINAL_STATUS_MAX \<and> final_status c = FINAL_STATUS_MAX \<and> c' = c\<lparr>final_status := fs\<rparr>)"
  by (auto simp: SetFinalStatus_def)

text \<open>
  C1. A record leaves the constructor with \<open>final_status\<close> at the sentinel
  \<open>FINAL_STATUS_MAX\<close>. On such a record \<open>SetFinalStatus\<close> with a real status succeeds
  and stores it. Whenever a call of \<open>SetFinalStatus\<close> succeeds, the status was unset
  before, is the argument afterwards, and every further call on the resulting record,
  with any argument \<open>fs2\<close>, fails an assertion: the precondition
  \<open>final_status_ == FINAL_STATUS_MAX\<close> (or, when \<open>fs2\<close> is the sentinel itself, the
  range check on the argument that precedes it).
\<close>

theorem final_status_written_once:
  "final_status (PrerenderContents_new url ref orig e) = FINAL_STATUS_MAX
   \<and> (final_status c = FINAL_STATUS_MAX \<and> fs \<noteq> FINAL_STATUS_MAX
        \<longrightarrow> SetFinalStatus fs c = Inr (c\<lparr>final_status := fs\<rparr>))
   \<and> (SetFinalStatus fs c = Inr c'
        \<longrightarrow> final_status c = FINAL_STATUS_MAX \<and> final_status c' = fs \<and> fs \<noteq> FINAL_STATUS_MAX
            \<and> SetFinalStatus fs2 c' =
                Inl (DCHECK_failed (if fs2 = FINAL_STATUS_MAX
                                    then SetFinalStatus_argument_in_range
                                    else SetFinalStatus_still_unset)))"
proof (intro conjI impI)
  show "final_status (PrerenderContents_new url ref orig e) = FINAL_STATUS_MAX"
    by (simp add: PrerenderContents_new_def)
next
  assume "final_status c = FINAL_STATUS_MAX \<and> fs \<noteq> FINAL_STATUS_MAX"
  then show "SetFinalStatus fs c = Inr (c\<lparr>final_status := fs\<rparr>)"
    by (simp add: SetFinalStatus_def)
next
  assume ok: "SetFinalStatus fs c = Inr c'"
  then have c': "c' = c\<lparr>final_status := fs\<rparr>" and fs: "fs \<noteq> FINAL_STATUS_MAX"
    and unset: "final_status c = FINAL_STATUS_MAX"
    by (simp_all add: SetFinalStatus_Inr_iff)
  show "final_status c = FINAL_STATUS_MAX" by (rule unset)
  show "final_status c' = fs" by (simp add: c')
  show "fs \<noteq> FINAL_STATUS_MAX" by (rule fs)
  show "SetFinalStatus fs2 c' =
          Inl (DCHECK_failed (if fs2 = FINAL_STATUS_MAX
                              then SetFinalStatus_argument_in_range
                              else SetFinalStatus_still_unset))"
    using fs by (simp add: SetFinalStatus_def c')
qed

theorem final_status_written_once_witness:
  "SetFinalStatus FINAL_STATUS_USED
     (PrerenderContents_new (GURL ''http'' ''//a.com/'') (Referrer (GURL ''http'' ''//r.com/''))
        ORIGIN_OMNIBOX 0) =
   Inr ((PrerenderContents_new (GURL ''http'' ''//a.com/'') (Referrer (GURL ''http'' ''//r.com/''))
        ORIGIN_OMNIBOX 0)\<lparr>final_status := FINAL_STATUS_USED\<rparr>)
   \<and> SetFinalStatus FINAL_STATUS_TIMED_OUT
       ((PrerenderContents_new (GURL ''http'' ''//a.com/'') (Referrer (GURL ''http'' ''//r.com/''))
          ORIGIN_OMNIBOX 0)\<lparr>final_status := FINAL_STATUS_USED\<rparr>) =
     Inl (DCHECK_failed SetFinalStatus_still_unset)"
proof -
  let ?c = "PrerenderContents_new (GURL ''http'' ''//a.com/'') (Referrer (GURL ''http'' ''//r.com/''))
        ORIGIN_OMNIBOX 0"
  have unset: "final_status ?c = FINAL_STATUS_MAX \<and> FINAL_STATUS_USED \<noteq> FINAL_STATUS_MAX"
    by (simp add: PrerenderContents_new_def)
  note t = final_status_written_once
    [of _ _ _ _ ?c FINAL_STATUS_USED "?c\<lparr>final_status := FINAL_STATUS_USED\<rparr>" FINAL_STATUS_TIMED_OUT]
  from t unset have first: "SetFinalStatus FINAL_STATUS_USED ?c = Inr (?c\<lparr>final_status := FINAL_STATUS_USED\<rparr>)"
    by blast
  with t show ?thesis by simp
qed

subsection \<open>Matching\<close>

lemma count_if_nonzero: "(count_if (\<lambda>a. a = x) xs \<noteq> 0) = (x \<in> set xs)"
  by (induction xs) (auto simp: count_if_def)

text \<open>
  C5. \<open>Matches(url, ns)\<close> is true exactly when \<open>url\<close> is one of the record's alias URLs
  and \<open>ns\<close> is either null or a namespace whose id is the record's
  \<open>session_storage_namespace_id_\<close>.
\<close>

theorem Matches_iff:
  "Matches c url ns =
   (url \<in> set (alias_urls c) \<and>
    (ns = None \<or> (\<exists>n. ns = Some n \<and> namespace_id n = session_storage_namespace_id c)))"
proof (cases ns)
  case None
  then show ?thesis
    using count_if_nonzero [of url "alias_urls c"] by (simp add: Matches_def)
next
  case (Some n)
  then show ?thesis
    using count_if_nonzero [of url "alias_urls c"] by (auto simp: Matches_def)
qed

text \<open>The record with aliases \<open>https://a.com\<close> and \<open>https://a.com/redirected\<close> and
  namespace 3 matches the second alias for namespace 3 and for no namespace, and does
  not match it for namespace 4.\<close>

lemma Matches_example:
  "Matches (started_contents\<lparr>alias_urls := [GURL ''https'' ''//a.com'',
                                            GURL ''https'' ''//a.com/redirected'']\<rparr>)
     (GURL ''https'' ''//a.com/redirected'') (Some (SessionStorageNamespace 3))
   \<and> Matches (started_contents\<lparr>alias_urls := [GURL ''https'' ''//a.com'',
                                            GURL ''https'' ''//a.com/redirected'']\<rparr>)
       (GURL ''https'' ''//a.com/redirected'') None
   \<and> \<not> Matches (started_contents\<lparr>alias_urls := [GURL ''https'' ''//a.com'',
                                            GURL ''https'' ''//a.com/redirected'']\<rparr>)
       (GURL ''https'' ''//a.com/redirected'') (Some (SessionStorageNamespace 4))"
  by (simp add: Matches_def count_if_def started_contents_def)

subsection \<open>History replay\<close>

lemma CommitHistory_from_drop: "CommitHistory_from i v h = h @ drop i v"
proof (induction i v h rule: CommitHistory_from.induct)
  case (1 i v h)
  show ?case
  proof (cases "i < length v")
    case True
    then have "drop i v = v ! i # drop (Suc i) v"
      by (simp add: Cons_nth_drop_Suc)
    with True "1.IH" show ?thesis
      by (simp add: UpdateHistoryForNavigation_def CommitHistory_from.simps [of i v h])
  next
    case False
    then show ?thesis by (simp add: CommitHistory_from.simps [of i v h])
  qed
qed

lemma add_page_vector_DidNavigate_all:
  "add_page_vector (foldl (\<lambda>c a. DidNavigate a c) c entries) = add_page_vector c @ entries"
  by (induction entries arbitrary: c) (simp_all add: DidNavigate_def)

text \<open>
  C7. \<open>CommitHistory\<close> hands the target's history helper the accumulated entries, one
  call each, in the order \<open>DidNavigate\<close> received them: on a new record that has seen
  the calls \<open>DidNavigate(e)\<close> for \<open>e\<close> in \<open>entries\<close> (of any length, zero and one
  included), the helper ends with exactly \<open>entries\<close> appended to what it held; on any
  record, with the record's \<open>add_page_vector_\<close> appended, the earlier entries first.
\<close>

theorem CommitHistory_replays_in_order:
  "CommitHistory (foldl (\<lambda>c a. DidNavigate a c) (PrerenderContents_new url ref orig e) entries) h
     = h @ entries
   \<and> CommitHistory (foldl (\<lambda>c a. DidNavigate a c) c entries) h = h @ add_page_vector c @ entries
   \<and> CommitHistory c h = h @ add_page_vector c"
  by (simp add: CommitHistory_def CommitHistory_from_drop add_page_vector_DidNavigate_all
      PrerenderContents_new_def)

subsection \<open>Destroy\<close>

lemma Destroy_cancelled:
  "prerendering_has_been_cancelled (contents s) \<Longrightarrow>
   Destroy mgr fs s =
     (if fs = FINAL_STATUS_USED then Inl (DCHECK_failed Destroy_status_not_USED) else Inr s)"
  by (simp add: Destroy_def)

lemmas Destroy_unfold =
  Destroy_def Destroy_tracker_def SetFinalStatus_def NotifyPrerenderStop_def Let_def

lemma Destroy_Inr_cancelled:
  "Destroy mgr fs s = Inr s' \<Longrightarrow> prerendering_has_been_cancelled (contents s')"
  by (auto simp: Destroy_unfold split: if_splits sum.splits prod.splits option.splits)

lemma Destroy_Inr_alias_urls:
  "Destroy mgr fs s = Inr s' \<Longrightarrow> alias_urls (contents s') = alias_urls (contents s)"
  by (auto simp: Destroy_unfold split: if_splits sum.splits prod.splits option.splits)

lemma Destroy_Inr_unassigned:
  "Destroy mgr fs s = Inr s' \<Longrightarrow> \<not> prerendering_has_been_cancelled (contents s) \<Longrightarrow>
   child_id (contents s) = - 1 \<or> route_id (contents s) = - 1 \<Longrightarrow>
   final_status (contents s') = fs \<and> tracker s' = tracker s"
  by (auto simp: Destroy_unfold split: if_splits sum.splits prod.splits option.splits)

lemma Destroy_Inr_assigned:
  "Destroy mgr fs s = Inr s' \<Longrightarrow> \<not> prerendering_has_been_cancelled (contents s) \<Longrightarrow>
   child_id (contents s) \<noteq> - 1 \<Longrightarrow> route_id (contents s) \<noteq> - 1 \<Longrightarrow>
   TryCancel (prerender_tracker mgr) (tracker s) (child_id (contents s)) (route_id (contents s)) fs
     = (True, tracker s') \<and>
   GetFinalStatus (prerender_tracker mgr) (tracker s') (child_id (contents s)) (route_id (contents s))
     = Some (final_status (contents s'))"
  by (auto simp: Destroy_unfold split: if_splits sum.splits prod.splits option.splits)

lemma Destroy_Inr_was_unset:
  "Destroy mgr fs s = Inr s' \<Longrightarrow> \<not> prerendering_has_been_cancelled (contents s) \<Longrightarrow>
   final_status (contents s) = FINAL_STATUS_MAX \<and> final_status (contents s') \<noteq> FINAL_STATUS_MAX
   \<and> fs \<noteq> FINAL_STATUS_USED"
  by (auto simp: Destroy_unfold split: if_splits sum.splits prod.splits option.splits)

text \<open>When \<open>Destroy\<close> returns.\<close>

lemma Destroy_returns_unassigned:
  "\<not> prerendering_has_been_cancelled (contents s) \<Longrightarrow>
   child_id (contents s) = - 1 \<or> route_id (contents s) = - 1 \<Longrightarrow>
   (\<exists>s'. Destroy mgr fs s = Inr s') =
   (fs \<noteq> FINAL_STATUS_USED \<and> fs \<noteq> FINAL_STATUS_MAX \<and> final_status (contents s) = FINAL_STATUS_MAX)"
  by (auto simp: Destroy_unfold split: if_splits sum.splits prod.splits option.splits)


lemma Destroy_again_cancelled:
  "prerendering_has_been_cancelled (contents s) \<Longrightarrow> FINAL_STATUS_USED \<notin> set later \<Longrightarrow>
   Destroy_again mgr later s = Inr s"
  by (induction later) (auto simp: Destroy_cancelled)

text \<open>
  C2. \<open>Destroy\<close> is idempotent. On a record whose cancelled flag is set, a call with any
  cancellation reason returns the system as it is: the record with its final status,
  the tracker and the event list are the same, so no status is written, nothing is
  added to the history or the pending-delete list, and no observer hears a second stop.
  (The reason \<open>FINAL_STATUS_USED\<close> is excluded by the assertion on entry, which such a
  call fails before and after cancellation alike.) Every call that returns leaves the
  flag set; hence a second call returns the system the first one produced, and so does
  every run of later calls.
\<close>

theorem Destroy_idempotent:
  "(prerendering_has_been_cancelled (contents s) \<longrightarrow>
      Destroy mgr fs s =
        (if fs = FINAL_STATUS_USED then Inl (DCHECK_failed Destroy_status_not_USED) else Inr s))
   \<and> (Destroy mgr fs s = Inr s' \<longrightarrow>
        prerendering_has_been_cancelled (contents s')
        \<and> Destroy mgr fs2 s' =
            (if fs2 = FINAL_STATUS_USED then Inl (DCHECK_failed Destroy_status_not_USED) else Inr s')
        \<and> (FINAL_STATUS_USED \<notin> set later \<longrightarrow> Destroy_again mgr later s' = Inr s'))"
  using Destroy_cancelled [of s mgr fs] Destroy_cancelled [of s' mgr fs2]
    Destroy_Inr_cancelled [of mgr fs s s'] Destroy_again_cancelled [of s' later mgr]
  by blast


theorem Destroy_idempotent_witness:
  "Destroy example_manager FINAL_STATUS_RENDERER_CRASHED started_system =
     Inr \<lparr> contents = started_contents\<lparr> final_status := FINAL_STATUS_RENDERER_CRASHED,
                                          prerendering_has_been_cancelled := True,
                                          observer_list := [] \<rparr>,
           tracker = [((5, 9), FINAL_STATUS_RENDERER_CRASHED)],
           events = [Manager_AddToHistory,
                     Manager_MoveEntryToPendingDelete FINAL_STATUS_RENDERER_CRASHED,
                     Observer_OnPrerenderStop 0] \<rparr>
   \<and> Destroy example_manager FINAL_STATUS_TIMED_OUT
       \<lparr> contents = started_contents\<lparr> final_status := FINAL_STATUS_RENDERER_CRASHED,
                                        prerendering_has_been_cancelled := True,
                                        observer_list := [] \<rparr>,
         tracker = [((5, 9), FINAL_STATUS_RENDERER_CRASHED)],
         events = [Manager_AddToHistory,
                   Manager_MoveEntryToPendingDelete FINAL_STATUS_RENDERER_CRASHED,
                   Observer_OnPrerenderStop 0] \<rparr> =
     Inr \<lparr> contents = started_contents\<lparr> final_status := FINAL_STATUS_RENDERER_CRASHED,
                                          prerendering_has_been_cancelled := True,
                                          observer_list := [] \<rparr>,
           tracker = [((5, 9), FINAL_STATUS_RENDERER_CRASHED)],
           events = [Manager_AddToHistory,
                     Manager_MoveEntryToPendingDelete FINAL_STATUS_RENDERER_CRASHED,
                     Observer_OnPrerenderStop 0] \<rparr>
   \<and> Destroy_again example_manager [FINAL_STATUS_OPEN_URL, FINAL_STATUS_DOWNLOAD]
       \<lparr> contents = started_contents\<lparr> final_status := FINAL_STATUS_RENDERER_CRASHED,
                                        prerendering_has_been_cancelled := True,
                                        observer_list := [] \<rparr>,
         tracker = [((5, 9), FINAL_STATUS_RENDERER_CRASHED)],
         events = [Manager_AddToHistory,
                   Manager_MoveEntryToPendingDelete FINAL_STATUS_RENDERER_CRASHED,
                   Observer_OnPrerenderStop 0] \<rparr> =
     Inr \<lparr> contents = started_contents\<lparr> final_status := FINAL_STATUS_RENDERER_CRASHED,
                                          prerendering_has_been_cancelled := True,
                                          observer_list := [] \<rparr>,
           tracker = [((5, 9), FINAL_STATUS_RENDERER_CRASHED)],
           events = [Manager_AddToHistory,
                     Manager_MoveEntryToPendingDelete FINAL_STATUS_RENDERER_CRASHED,
                     Observer_OnPrerenderStop 0] \<rparr>"
proof -
  let ?s1 = "\<lparr> contents = started_contents\<lparr> final_status := FINAL_STATUS_RENDERER_CRASHED,
                                          prerendering_has_been_cancelled := True,
                                          observer_list := [] \<rparr>,
           tracker = [((5, 9), FINAL_STATUS_RENDERER_CRASHED)],
           events = [Manager_AddToHistory,
                     Manager_MoveEntryToPendingDelete FINAL_STATUS_RENDERER_CRASHED,
                     Observer_OnPrerenderStop 0] \<rparr> :: tracker_map system"
  have first: "Destroy example_manager FINAL_STATUS_RENDERER_CRASHED started_system = Inr ?s1"
    by (simp add: Destroy_unfold example_manager_def map_tracker_def started_system_def
        started_contents_def new_contents_def PrerenderContents_new_def
        PrerenderTracker_TryCancel_def PrerenderTracker_GetFinalStatus_def)
  have later: "FINAL_STATUS_USED \<notin> set [FINAL_STATUS_OPEN_URL, FINAL_STATUS_DOWNLOAD]"
    by simp
  from first later
    Destroy_idempotent [of started_system example_manager FINAL_STATUS_RENDERER_CRASHED ?s1
      FINAL_STATUS_TIMED_OUT "[FINAL_STATUS_OPEN_URL, FINAL_STATUS_DOWNLOAD]"]
  show ?thesis by simp
qed




subsection \<open>CheckURL and AddAliasURL\<close>

lemma CheckURL_pass:
  "CheckURL_passes mgr (contents s) url \<Longrightarrow> CheckURL mgr url s = Inr (True, s)"
  by (auto simp: CheckURL_def CheckURL_passes_def Let_def)

lemma CheckURL_Inr:
  "CheckURL mgr url s = Inr (r, s') \<Longrightarrow>
   r = CheckURL_passes mgr (contents s) url \<and>
   (if r then s' = s
    else prerendering_has_been_cancelled (contents s') \<and>
         alias_urls (contents s') = alias_urls (contents s))"
  by (auto simp: CheckURL_def CheckURL_passes_def Let_def
      dest: Destroy_Inr_cancelled Destroy_Inr_alias_urls
      split: if_splits sum.splits)

lemma AddAliasURL_pass:
  "CheckURL_passes mgr (contents s) url \<Longrightarrow>
   AddAliasURL mgr url s =
     Inr (True, s\<lparr> contents := (contents s)\<lparr>alias_urls := alias_urls (contents s) @ [url]\<rparr>,
                   events := events s @ alias_broadcast mgr url \<rparr>)"
  by (simp add: AddAliasURL_def CheckURL_pass alias_broadcast_def)

lemma AddAliasURL_reject:
  "\<not> CheckURL_passes mgr (contents s) url \<Longrightarrow> AddAliasURL mgr url s = Inr (r, s') \<Longrightarrow>
   \<not> r \<and> CheckURL mgr url s = Inr (False, s') \<and>
   prerendering_has_been_cancelled (contents s') \<and>
   alias_urls (contents s') = alias_urls (contents s)"
  by (auto simp: AddAliasURL_def split: sum.splits prod.splits if_splits dest!: CheckURL_Inr)

lemma CheckURL_unsupported_scheme:
  "\<not> SchemeIs url kHttpScheme \<Longrightarrow> \<not> SchemeIs url kHttpsScheme \<Longrightarrow>
   match_complete_status (contents s) \<noteq> MATCH_COMPLETE_REPLACEMENT_PENDING \<Longrightarrow>
   CheckURL mgr url s =
     (case Destroy mgr FINAL_STATUS_UNSUPPORTED_SCHEME s of
        Inl e \<Rightarrow> Inl e | Inr s' \<Rightarrow> Inr (False, s'))"
  by (simp add: CheckURL_def)

text \<open>
  C4, as stated, fails. The started record of \<open>raced_system\<close> is not yet cancelled;
  another thread has already cancelled its (process, route) pair through the tracker
  with \<open>FINAL_STATUS_TIMED_OUT\<close>. \<open>AddAliasURL\<close> of \<open>ftp://x.com/a\<close> returns false and
  leaves the aliases alone, and the record's final status is \<open>FINAL_STATUS_TIMED_OUT\<close>,
  not \<open>FINAL_STATUS_UNSUPPORTED_SCHEME\<close>.
\<close>

theorem AddAliasURL_unsupported_scheme_counterexample:
  "\<not> SchemeIs (GURL ''ftp'' ''//x.com/a'') kHttpScheme
   \<and> \<not> SchemeIs (GURL ''ftp'' ''//x.com/a'') kHttpsScheme
   \<and> \<not> prerendering_has_been_cancelled (contents raced_system)
   \<and> final_status (contents raced_system) = FINAL_STATUS_MAX
   \<and> AddAliasURL example_manager (GURL ''ftp'' ''//x.com/a'') raced_system =
       Inr (False,
            \<lparr> contents = started_contents\<lparr> final_status := FINAL_STATUS_TIMED_OUT,
                                            prerendering_has_been_cancelled := True,
                                            observer_list := [] \<rparr>,
              tracker = [((5, 9), FINAL_STATUS_TIMED_OUT)],
              events = [Manager_AddToHistory,
                        Manager_MoveEntryToPendingDelete FINAL_STATUS_TIMED_OUT,
                        Observer_OnPrerenderStop 0] \<rparr>)
   \<and> final_status (started_contents\<lparr> final_status := FINAL_STATUS_TIMED_OUT,
                                      prerendering_has_been_cancelled := True,
                                      observer_list := [] \<rparr>) \<noteq> FINAL_STATUS_UNSUPPORTED_SCHEME"
  by (simp add: AddAliasURL_def CheckURL_def Destroy_unfold SchemeIs_def kHttpScheme_def
      kHttpsScheme_def example_manager_def map_tracker_def raced_system_def
      started_contents_def new_contents_def PrerenderContents_new_def
      PrerenderTracker_TryCancel_def PrerenderTracker_GetFinalStatus_def)

text \<open>
  C4, amended. Let the scheme of \<open>url\<close> be neither http nor https. Whenever
  \<open>AddAliasURL(url)\<close> returns, on any record, it returns false, the record is cancelled
  and its alias list is what it was. On a record that is not yet cancelled, has no
  final status, is not a pending replacement and has no (process, route) pair (the
  constructor leaves a record so), the call does return and the final status is
  \<open>FINAL_STATUS_UNSUPPORTED_SCHEME\<close>; the third part states this for the record the
  constructor builds, with any tracker state and any events so far. On a record that
  is not yet cancelled and has a pair assigned, the final status is the one the tracker
  reports after \<open>TryCancel\<close>.
\<close>

theorem AddAliasURL_unsupported_scheme:
  assumes "\<not> SchemeIs url kHttpScheme" and "\<not> SchemeIs url kHttpsScheme"
  shows
    "(AddAliasURL mgr url s = Inr (r, s') \<longrightarrow>
        \<not> r \<and> prerendering_has_been_cancelled (contents s') \<and>
        alias_urls (contents s') = alias_urls (contents s))
     \<and> (\<not> prerendering_has_been_cancelled (contents s) \<and>
         final_status (contents s) = FINAL_STATUS_MAX \<and>
         match_complete_status (contents s) \<noteq> MATCH_COMPLETE_REPLACEMENT_PENDING \<and>
         (child_id (contents s) = - 1 \<or> route_id (contents s) = - 1) \<longrightarrow>
         (\<exists>s1. AddAliasURL mgr url s = Inr (False, s1) \<and>
               prerendering_has_been_cancelled (contents s1) \<and>
               final_status (contents s1) = FINAL_STATUS_UNSUPPORTED_SCHEME \<and>
               alias_urls (contents s1) = alias_urls (contents s)))
     \<and> (\<exists>s1. AddAliasURL mgr url
                \<lparr>contents = PrerenderContents_new u0 ref orig e, tracker = t, events = ev\<rparr> =
                Inr (False, s1) \<and>
              prerendering_has_been_cancelled (contents s1) \<and>
              final_status (contents s1) = FINAL_STATUS_UNSUPPORTED_SCHEME \<and>
              alias_urls (contents s1) = [])
     \<and> (\<not> prerendering_has_been_cancelled (contents s) \<and>
         child_id (contents s) \<noteq> - 1 \<and> route_id (contents s) \<noteq> - 1 \<and>
         AddAliasURL mgr url s = Inr (r, s') \<longrightarrow>
          TryCancel (prerender_tracker mgr) (tracker s) (child_id (contents s))
            (route_id (contents s)) FINAL_STATUS_UNSUPPORTED_SCHEME = (True, tracker s')
          \<and> GetFinalStatus (prerender_tracker mgr) (tracker s') (child_id (contents s))
              (route_id (contents s)) = Some (final_status (contents s')))"
proof -
  have nopass: "\<not> CheckURL_passes mgr c url" for c
    using assms by (simp add: CheckURL_passes_def)
  have general: "AddAliasURL mgr url s = Inr (r, s') \<longrightarrow>
        \<not> r \<and> prerendering_has_been_cancelled (contents s') \<and>
        alias_urls (contents s') = alias_urls (contents s)"
    using AddAliasURL_reject [OF nopass, of s r s'] by blast
  have fresh: "\<exists>s1. AddAliasURL mgr url x = Inr (False, s1) \<and>
               prerendering_has_been_cancelled (contents s1) \<and>
               final_status (contents s1) = FINAL_STATUS_UNSUPPORTED_SCHEME \<and>
               alias_urls (contents s1) = alias_urls (contents x)"
    if x: "\<not> prerendering_has_been_cancelled (contents x)"
      "final_status (contents x) = FINAL_STATUS_MAX"
      "match_complete_status (contents x) \<noteq> MATCH_COMPLETE_REPLACEMENT_PENDING"
      "child_id (contents x) = - 1 \<or> route_id (contents x) = - 1" for x :: "'a system"
  proof -
    from x Destroy_returns_unassigned [of x mgr FINAL_STATUS_UNSUPPORTED_SCHEME]
    obtain s1 where d: "Destroy mgr FINAL_STATUS_UNSUPPORTED_SCHEME x = Inr s1"
      by auto
    from d x have "final_status (contents s1) = FINAL_STATUS_UNSUPPORTED_SCHEME"
      using Destroy_Inr_unassigned [of mgr FINAL_STATUS_UNSUPPORTED_SCHEME x s1] by blast
    moreover have "CheckURL mgr url x = Inr (False, s1)"
      using assms x(3) d by (simp add: CheckURL_unsupported_scheme)
    then have "AddAliasURL mgr url x = Inr (False, s1)"
      by (simp add: AddAliasURL_def)
    moreover note Destroy_Inr_cancelled [OF d] Destroy_Inr_alias_urls [OF d]
    ultimately show ?thesis by blast
  qed
  have new: "\<exists>s1. AddAliasURL mgr url
                \<lparr>contents = PrerenderContents_new u0 ref orig e, tracker = t, events = ev\<rparr> =
                Inr (False, s1) \<and>
              prerendering_has_been_cancelled (contents s1) \<and>
              final_status (contents s1) = FINAL_STATUS_UNSUPPORTED_SCHEME \<and>
              alias_urls (contents s1) = []"
    using fresh [of "\<lparr>contents = PrerenderContents_new u0 ref orig e, tracker = t, events = ev\<rparr>"]
    by (simp add: PrerenderContents_new_def)
  have assigned: "TryCancel (prerender_tracker mgr) (tracker s) (child_id (contents s))
            (route_id (contents s)) FINAL_STATUS_UNSUPPORTED_SCHEME = (True, tracker s')
          \<and> GetFinalStatus (prerender_tracker mgr) (tracker s') (child_id (contents s))
              (route_id (contents s)) = Some (final_status (contents s'))"
    if live: "\<not> prerendering_has_been_cancelled (contents s)"
      and ids: "child_id (contents s) \<noteq> - 1" "route_id (contents s) \<noteq> - 1"
      and ret: "AddAliasURL mgr url s = Inr (r, s')"
  proof -
    from AddAliasURL_reject [OF nopass ret]
    have c: "CheckURL mgr url s = Inr (False, s')" by blast
    have d: "Destroy mgr FINAL_STATUS_UNSUPPORTED_SCHEME s = Inr s'"
      using c assms by (auto simp: CheckURL_def split: if_splits sum.splits)
    from Destroy_Inr_assigned [OF d live ids] show ?thesis .
  qed
  from general fresh [of s] new assigned show ?thesis by blast
qed

theorem AddAliasURL_unsupported_scheme_witness:
  "AddAliasURL example_manager (GURL ''ftp'' ''//x.com/a'') new_system =
     Inr (False,
          \<lparr> contents = new_contents\<lparr> final_status := FINAL_STATUS_UNSUPPORTED_SCHEME,
                                      prerendering_has_been_cancelled := True \<rparr>,
            tracker = [],
            events = [Manager_AddToHistory,
                      Manager_MoveEntryToPendingDelete FINAL_STATUS_UNSUPPORTED_SCHEME] \<rparr>)
   \<and> alias_urls (new_contents\<lparr> final_status := FINAL_STATUS_UNSUPPORTED_SCHEME,
                                prerendering_has_been_cancelled := True \<rparr>) =
       alias_urls (contents new_system)
   \<and> AddAliasURL example_manager (GURL ''ftp'' ''//x.com/a'') started_system =
       Inr (False,
            \<lparr> contents = started_contents\<lparr> final_status := FINAL_STATUS_UNSUPPORTED_SCHEME,
                                            prerendering_has_been_cancelled := True,
                                            observer_list := [] \<rparr>,
              tracker = [((5, 9), FINAL_STATUS_UNSUPPORTED_SCHEME)],
              events = [Manager_AddToHistory,
                        Manager_MoveEntryToPendingDelete FINAL_STATUS_UNSUPPORTED_SCHEME,
                        Observer_OnPrerenderStop 0] \<rparr>)
   \<and> GetFinalStatus map_tracker [((5, 9), FINAL_STATUS_UNSUPPORTED_SCHEME)] 5 9 =
       Some FINAL_STATUS_UNSUPPORTED_SCHEME"
proof -
  let ?u = "GURL ''ftp'' ''//x.com/a''"
  let ?s1 = "\<lparr> contents = new_contents\<lparr> final_status := FINAL_STATUS_UNSUPPORTED_SCHEME,
                                      prerendering_has_been_cancelled := True \<rparr>,
            tracker = [],
            events = [Manager_AddToHistory,
                      Manager_MoveEntryToPendingDelete FINAL_STATUS_UNSUPPORTED_SCHEME] \<rparr>
            :: tracker_map system"
  let ?s2 = "\<lparr> contents = started_contents\<lparr> final_status := FINAL_STATUS_UNSUPPORTED_SCHEME,
                                            prerendering_has_been_cancelled := True,
                                            observer_list := [] \<rparr>,
              tracker = [((5, 9), FINAL_STATUS_UNSUPPORTED_SCHEME)],
              events = [Manager_AddToHistory,
                        Manager_MoveEntryToPendingDelete FINAL_STATUS_UNSUPPORTED_SCHEME,
                        Observer_OnPrerenderStop 0] \<rparr> :: tracker_map system"
  note defs = AddAliasURL_def CheckURL_def Destroy_unfold SchemeIs_def kHttpScheme_def
    kHttpsScheme_def example_manager_def map_tracker_def new_system_def started_system_def
    started_contents_def new_contents_def PrerenderContents_new_def
    PrerenderTracker_TryCancel_def PrerenderTracker_GetFinalStatus_def
  have u: "\<not> SchemeIs ?u kHttpScheme" "\<not> SchemeIs ?u kHttpsScheme"
    by (simp_all add: SchemeIs_def kHttpScheme_def kHttpsScheme_def)
  have started: "\<not> prerendering_has_been_cancelled (contents started_system)"
    "child_id (contents started_system) = 5" "route_id (contents started_system) = 9"
    by (simp_all add: started_system_def started_contents_def new_contents_def
        PrerenderContents_new_def)
  have run: "AddAliasURL example_manager ?u new_system = Inr (False, ?s1)"
    by (simp add: defs)
  have run2: "AddAliasURL example_manager ?u started_system = Inr (False, ?s2)"
    by (simp add: defs)
  from AddAliasURL_unsupported_scheme [OF u, of example_manager new_system False ?s1] run
  have a: "alias_urls (contents ?s1) = alias_urls (contents new_system)"
    by simp
  from AddAliasURL_unsupported_scheme [OF u, of example_manager started_system False ?s2]
    run2 started
  have b: "GetFinalStatus map_tracker [((5, 9), FINAL_STATUS_UNSUPPORTED_SCHEME)] 5 9 =
       Some FINAL_STATUS_UNSUPPORTED_SCHEME"
    by (simp add: example_manager_def)
  from run run2 a b show ?thesis by simp
qed

subsection \<open>The recently-visited test\<close>

lemma http_is_not_https: "SchemeIs url kHttpScheme \<Longrightarrow> \<not> SchemeIs url kHttpsScheme"
  by (simp add: SchemeIs_def kHttpScheme_def kHttpsScheme_def)

lemma CheckURL_third_test_rejects:
  "SchemeIs url kHttpScheme \<Longrightarrow> HasRecentlyBeenNavigatedTo mgr (origin (contents s)) url \<Longrightarrow>
   match_complete_status (contents s) \<noteq> MATCH_COMPLETE_REPLACEMENT_PENDING \<Longrightarrow>
   CheckURL mgr url s =
     (case Destroy mgr FINAL_STATUS_RECENTLY_VISITED s of
        Inl e \<Rightarrow> Inl e | Inr s' \<Rightarrow> Inr (False, s'))"
  by (simp add: CheckURL_def http_is_not_https)

lemma CheckURL_scheme_tests:
  "(\<not> SchemeIs url kHttpScheme \<and> \<not> SchemeIs url kHttpsScheme) \<or>
   (SchemeIs url kHttpsScheme \<and> \<not> https_allowed mgr) \<Longrightarrow>
   CheckURL mgr url s =
     (if match_complete_status (contents s) = MATCH_COMPLETE_REPLACEMENT_PENDING
      then Inl (DCHECK_failed CheckURL_not_replacement_pending)
      else (case Destroy mgr (if SchemeIs url kHttpsScheme then FINAL_STATUS_HTTPS
                              else FINAL_STATUS_UNSUPPORTED_SCHEME) s of
              Inl e \<Rightarrow> Inl e | Inr s' \<Rightarrow> Inr (False, s')))"
  by (auto simp: CheckURL_def Let_def)

lemma CheckURL_third_test:
  "SchemeIs url kHttpScheme \<or> (SchemeIs url kHttpsScheme \<and> https_allowed mgr) \<Longrightarrow>
   (CheckURL mgr url s = Inr (True, s)) =
   (match_complete_status (contents s) = MATCH_COMPLETE_REPLACEMENT_PENDING \<or>
    \<not> HasRecentlyBeenNavigatedTo mgr (origin (contents s)) url)"
  by (auto simp: CheckURL_def Let_def http_is_not_https split: sum.splits)

text \<open>
  C9, as stated, fails. The started record of \<open>raced_system\<close> is not a pending
  replacement and not cancelled, and the manager reports the http URL as recently
  visited; another thread has already cancelled its (process, route) pair through the
  tracker with \<open>FINAL_STATUS_TIMED_OUT\<close>. \<open>CheckURL\<close> returns false, and the record's
  final status is \<open>FINAL_STATUS_TIMED_OUT\<close>, not \<open>FINAL_STATUS_RECENTLY_VISITED\<close>.
\<close>

theorem CheckURL_recently_visited_counterexample:
  "SchemeIs (GURL ''http'' ''//visited.example/'') kHttpScheme
   \<and> HasRecentlyBeenNavigatedTo example_manager (origin (contents raced_system))
       (GURL ''http'' ''//visited.example/'')
   \<and> match_complete_status (contents raced_system) = MATCH_COMPLETE_DEFAULT
   \<and> \<not> prerendering_has_been_cancelled (contents raced_system)
   \<and> final_status (contents raced_system) = FINAL_STATUS_MAX
   \<and> CheckURL example_manager (GURL ''http'' ''//visited.example/'') raced_system =
       Inr (False,
            \<lparr> contents = started_contents\<lparr> final_status := FINAL_STATUS_TIMED_OUT,
                                            prerendering_has_been_cancelled := True,
                                            observer_list := [] \<rparr>,
              tracker = [((5, 9), FINAL_STATUS_TIMED_OUT)],
              events = [Manager_AddToHistory,
                        Manager_MoveEntryToPendingDelete FINAL_STATUS_TIMED_OUT,
                        Observer_OnPrerenderStop 0] \<rparr>)
   \<and> final_status (started_contents\<lparr> final_status := FINAL_STATUS_TIMED_OUT,
                                      prerendering_has_been_cancelled := True,
                                      observer_list := [] \<rparr>) \<noteq> FINAL_STATUS_RECENTLY_VISITED"
  by (simp add: CheckURL_def Destroy_unfold SchemeIs_def kHttpScheme_def kHttpsScheme_def
      example_manager_def map_tracker_def raced_system_def started_contents_def
      new_contents_def PrerenderContents_new_def PrerenderTracker_TryCancel_def
      PrerenderTracker_GetFinalStatus_def)

text \<open>
  C9, amended. (1) For a URL that passes the two scheme tests, \<open>CheckURL\<close> accepts it
  and leaves the system alone exactly when the record is a pending replacement or the
  manager does not report the URL as recently visited: the third test is skipped
  precisely for pending replacements. (2) A URL that fails a scheme test is accepted
  for no match-complete status; on every record that is not a pending replacement the
  rejection is \<open>Destroy\<close> with the reason of the failed test, whatever the status is.
  (3) For an http URL reported as recently visited: a pending replacement is left
  untouched and \<open>CheckURL\<close> returns true; on any other record \<open>CheckURL\<close> never returns
  true, and when it returns the record is cancelled with its aliases unchanged. An
  already cancelled record is left as it is. A record not yet cancelled and without a
  (process, route) pair is rejected exactly when it has no final status yet, and ends
  with \<open>FINAL_STATUS_RECENTLY_VISITED\<close>. A record not yet cancelled with a pair
  assigned ends with the status the tracker reports after \<open>TryCancel\<close>.
\<close>

theorem CheckURL_recently_visited_check:
  "(SchemeIs url kHttpScheme \<or> (SchemeIs url kHttpsScheme \<and> https_allowed mgr) \<longrightarrow>
      (CheckURL mgr url s = Inr (True, s)) =
      (match_complete_status (contents s) = MATCH_COMPLETE_REPLACEMENT_PENDING \<or>
       \<not> HasRecentlyBeenNavigatedTo mgr (origin (contents s)) url))
   \<and> ((\<not> SchemeIs url kHttpScheme \<and> \<not> SchemeIs url kHttpsScheme) \<or>
       (SchemeIs url kHttpsScheme \<and> \<not> https_allowed mgr) \<longrightarrow>
        CheckURL mgr url s \<noteq> Inr (True, s') \<and>
        (match_complete_status (contents s) \<noteq> MATCH_COMPLETE_REPLACEMENT_PENDING \<longrightarrow>
           CheckURL mgr url s =
             (case Destroy mgr (if SchemeIs url kHttpsScheme then FINAL_STATUS_HTTPS
                                else FINAL_STATUS_UNSUPPORTED_SCHEME) s of
                Inl e \<Rightarrow> Inl e | Inr s1 \<Rightarrow> Inr (False, s1))))
   \<and> (SchemeIs url kHttpScheme \<and> HasRecentlyBeenNavigatedTo mgr (origin (contents s)) url \<longrightarrow>
        (match_complete_status (contents s) = MATCH_COMPLETE_REPLACEMENT_PENDING \<longrightarrow>
           CheckURL mgr url s = Inr (True, s))
        \<and> (match_complete_status (contents s) \<noteq> MATCH_COMPLETE_REPLACEMENT_PENDING \<longrightarrow>
             (CheckURL mgr url s = Inr (r, s') \<longrightarrow>
                \<not> r \<and> prerendering_has_been_cancelled (contents s') \<and>
                alias_urls (contents s') = alias_urls (contents s))
             \<and> (prerendering_has_been_cancelled (contents s) \<longrightarrow>
                  CheckURL mgr url s = Inr (False, s))
             \<and> (\<not> prerendering_has_been_cancelled (contents s) \<and>
                 (child_id (contents s) = - 1 \<or> route_id (contents s) = - 1) \<longrightarrow>
                  ((\<exists>s1. CheckURL mgr url s = Inr (False, s1)) =
                     (final_status (contents s) = FINAL_STATUS_MAX))
                  \<and> (CheckURL mgr url s = Inr (r, s') \<longrightarrow>
                       final_status (contents s') = FINAL_STATUS_RECENTLY_VISITED \<and>
                       tracker s' = tracker s))
             \<and> (\<not> prerendering_has_been_cancelled (contents s) \<and>
                 child_id (contents s) \<noteq> - 1 \<and> route_id (contents s) \<noteq> - 1 \<and>
                 CheckURL mgr url s = Inr (r, s') \<longrightarrow>
                  TryCancel (prerender_tracker mgr) (tracker s) (child_id (contents s))
                    (route_id (contents s)) FINAL_STATUS_RECENTLY_VISITED = (True, tracker s')
                  \<and> GetFinalStatus (prerender_tracker mgr) (tracker s') (child_id (contents s))
                      (route_id (contents s)) = Some (final_status (contents s')))))"
proof (intro conjI impI)
  assume "SchemeIs url kHttpScheme \<or> (SchemeIs url kHttpsScheme \<and> https_allowed mgr)"
  then show "(CheckURL mgr url s = Inr (True, s)) =
      (match_complete_status (contents s) = MATCH_COMPLETE_REPLACEMENT_PENDING \<or>
       \<not> HasRecentlyBeenNavigatedTo mgr (origin (contents s)) url)"
    by (rule CheckURL_third_test)
next
  assume bad: "(\<not> SchemeIs url kHttpScheme \<and> \<not> SchemeIs url kHttpsScheme) \<or>
       (SchemeIs url kHttpsScheme \<and> \<not> https_allowed mgr)"
  show "CheckURL mgr url s \<noteq> Inr (True, s')"
    using CheckURL_scheme_tests [OF bad, of s] by (auto split: sum.splits)
  show "CheckURL mgr url s =
             (case Destroy mgr (if SchemeIs url kHttpsScheme then FINAL_STATUS_HTTPS
                                else FINAL_STATUS_UNSUPPORTED_SCHEME) s of
                Inl e \<Rightarrow> Inl e | Inr s1 \<Rightarrow> Inr (False, s1))"
    if "match_complete_status (contents s) \<noteq> MATCH_COMPLETE_REPLACEMENT_PENDING"
    using CheckURL_scheme_tests [OF bad, of s] that by simp
next
  assume a: "SchemeIs url kHttpScheme \<and> HasRecentlyBeenNavigatedTo mgr (origin (contents s)) url"
  show "CheckURL mgr url s = Inr (True, s)"
    if "match_complete_status (contents s) = MATCH_COMPLETE_REPLACEMENT_PENDING"
    using a that by (simp add: CheckURL_def http_is_not_https)
next
  assume a: "SchemeIs url kHttpScheme \<and> HasRecentlyBeenNavigatedTo mgr (origin (contents s)) url"
    and np: "match_complete_status (contents s) \<noteq> MATCH_COMPLETE_REPLACEMENT_PENDING"
  note eq = CheckURL_third_test_rejects [OF conjunct1 [OF a] conjunct2 [OF a] np]
  show "\<not> r" "prerendering_has_been_cancelled (contents s')"
    "alias_urls (contents s') = alias_urls (contents s)"
    if "CheckURL mgr url s = Inr (r, s')"
    using that eq
    by (auto split: sum.splits dest: Destroy_Inr_cancelled Destroy_Inr_alias_urls)
  show "CheckURL mgr url s = Inr (False, s)" if "prerendering_has_been_cancelled (contents s)"
    using that eq by (simp add: Destroy_cancelled)
next
  assume a: "SchemeIs url kHttpScheme \<and> HasRecentlyBeenNavigatedTo mgr (origin (contents s)) url"
    and np: "match_complete_status (contents s) \<noteq> MATCH_COMPLETE_REPLACEMENT_PENDING"
    and u: "\<not> prerendering_has_been_cancelled (contents s) \<and>
                 (child_id (contents s) = - 1 \<or> route_id (contents s) = - 1)"
  note eq = CheckURL_third_test_rejects [OF conjunct1 [OF a] conjunct2 [OF a] np]
  show "(\<exists>s1. CheckURL mgr url s = Inr (False, s1)) =
                     (final_status (contents s) = FINAL_STATUS_MAX)"
    using Destroy_returns_unassigned [of s mgr FINAL_STATUS_RECENTLY_VISITED] u eq
    by (auto split: sum.splits)
  show "final_status (contents s') = FINAL_STATUS_RECENTLY_VISITED" "tracker s' = tracker s"
    if "CheckURL mgr url s = Inr (r, s')"
    using that eq u Destroy_Inr_unassigned [of mgr FINAL_STATUS_RECENTLY_VISITED s s']
    by (auto split: sum.splits)
next
  assume a: "SchemeIs url kHttpScheme \<and> HasRecentlyBeenNavigatedTo mgr (origin (contents s)) url"
    and np: "match_complete_status (contents s) \<noteq> MATCH_COMPLETE_REPLACEMENT_PENDING"
    and u: "\<not> prerendering_has_been_cancelled (contents s) \<and>
                 child_id (contents s) \<noteq> - 1 \<and> route_id (contents s) \<noteq> - 1 \<and>
                 CheckURL mgr url s = Inr (r, s')"
  note eq = CheckURL_third_test_rejects [OF conjunct1 [OF a] conjunct2 [OF a] np]
  from u eq have d: "Destroy mgr FINAL_STATUS_RECENTLY_VISITED s = Inr s'"
    by (auto split: sum.splits)
  from Destroy_Inr_assigned [OF d] u
  show "TryCancel (prerender_tracker mgr) (tracker s) (child_id (contents s))
                    (route_id (contents s)) FINAL_STATUS_RECENTLY_VISITED = (True, tracker s')"
    "GetFinalStatus (prerender_tracker mgr) (tracker s') (child_id (contents s))
                      (route_id (contents s)) = Some (final_status (contents s'))"
    by simp_all
qed

theorem CheckURL_recently_visited_check_witness:
  "CheckURL example_manager (GURL ''http'' ''//visited.example/'') raced_system =
     Inr (False,
          \<lparr> contents = started_contents\<lparr> final_status := FINAL_STATUS_TIMED_OUT,
                                          prerendering_has_been_cancelled := True,
                                          observer_list := [] \<rparr>,
            tracker = [((5, 9), FINAL_STATUS_TIMED_OUT)],
            events = [Manager_AddToHistory,
                      Manager_MoveEntryToPendingDelete FINAL_STATUS_TIMED_OUT,
                      Observer_OnPrerenderStop 0] \<rparr>)
   \<and> TryCancel map_tracker (tracker raced_system) 5 9 FINAL_STATUS_RECENTLY_VISITED =
       (True, [((5, 9), FINAL_STATUS_TIMED_OUT)])
   \<and> GetFinalStatus map_tracker [((5, 9), FINAL_STATUS_TIMED_OUT)] 5 9 =
       Some FINAL_STATUS_TIMED_OUT
   \<and> CheckURL example_manager (GURL ''http'' ''//visited.example/'')
       (started_system\<lparr>contents := started_contents
          \<lparr>match_complete_status := MATCH_COMPLETE_REPLACEMENT_PENDING\<rparr>\<rparr>) =
       Inr (True, started_system\<lparr>contents := started_contents
          \<lparr>match_complete_status := MATCH_COMPLETE_REPLACEMENT_PENDING\<rparr>\<rparr>)
   \<and> CheckURL example_manager (GURL ''http'' ''//visited.example/'') new_system =
       Inr (False,
            \<lparr> contents = new_contents\<lparr> final_status := FINAL_STATUS_RECENTLY_VISITED,
                                        prerendering_has_been_cancelled := True \<rparr>,
              tracker = [],
              events = [Manager_AddToHistory,
                        Manager_MoveEntryToPendingDelete FINAL_STATUS_RECENTLY_VISITED] \<rparr>)"
proof -
  let ?v = "GURL ''http'' ''//visited.example/''"
  let ?r1 = "\<lparr> contents = started_contents\<lparr> final_status := FINAL_STATUS_TIMED_OUT,
                                          prerendering_has_been_cancelled := True,
                                          observer_list := [] \<rparr>,
            tracker = [((5, 9), FINAL_STATUS_TIMED_OUT)],
            events = [Manager_AddToHistory,
                      Manager_MoveEntryToPendingDelete FINAL_STATUS_TIMED_OUT,
                      Observer_OnPrerenderStop 0] \<rparr> :: tracker_map system"
  let ?p = "started_system\<lparr>contents := started_contents
          \<lparr>match_complete_status := MATCH_COMPLETE_REPLACEMENT_PENDING\<rparr>\<rparr>"
  have v: "SchemeIs ?v kHttpScheme"
    by (simp add: SchemeIs_def kHttpScheme_def)
  have recent: "HasRecentlyBeenNavigatedTo example_manager orig ?v" for orig
    by (simp add: example_manager_def)
  have raced: "match_complete_status (contents raced_system) \<noteq> MATCH_COMPLETE_REPLACEMENT_PENDING"
    "\<not> prerendering_has_been_cancelled (contents raced_system)"
    "child_id (contents raced_system) = 5" "route_id (contents raced_system) = 9"
    by (simp_all add: raced_system_def started_contents_def new_contents_def
        PrerenderContents_new_def)
  have pending: "match_complete_status (contents ?p) = MATCH_COMPLETE_REPLACEMENT_PENDING"
    by simp
  have mgr: "prerender_tracker example_manager = map_tracker"
    by (simp add: example_manager_def)
  have run: "CheckURL example_manager ?v raced_system = Inr (False, ?r1)"
    by (simp add: CheckURL_def Destroy_unfold SchemeIs_def kHttpScheme_def kHttpsScheme_def
        example_manager_def map_tracker_def raced_system_def started_contents_def
        new_contents_def PrerenderContents_new_def PrerenderTracker_TryCancel_def
        PrerenderTracker_GetFinalStatus_def)
  from CheckURL_recently_visited_check [of ?v example_manager raced_system ?r1 False]
    v recent raced run mgr
  have a: "TryCancel map_tracker (tracker raced_system) 5 9 FINAL_STATUS_RECENTLY_VISITED =
       (True, [((5, 9), FINAL_STATUS_TIMED_OUT)])
     \<and> GetFinalStatus map_tracker [((5, 9), FINAL_STATUS_TIMED_OUT)] 5 9 =
       Some FINAL_STATUS_TIMED_OUT"
    by simp
  from CheckURL_recently_visited_check [of ?v example_manager ?p] v recent pending
  have b: "CheckURL example_manager ?v ?p = Inr (True, ?p)"
    by simp
  have c: "CheckURL example_manager ?v new_system =
       Inr (False,
            \<lparr> contents = new_contents\<lparr> final_status := FINAL_STATUS_RECENTLY_VISITED,
                                        prerendering_has_been_cancelled := True \<rparr>,
              tracker = [],
              events = [Manager_AddToHistory,
                        Manager_MoveEntryToPendingDelete FINAL_STATUS_RECENTLY_VISITED] \<rparr>)"
    by (simp add: CheckURL_def Destroy_unfold SchemeIs_def kHttpScheme_def kHttpsScheme_def
        example_manager_def new_system_def new_contents_def PrerenderContents_new_def)
  from run a b c show ?thesis by simp
qed

subsection \<open>Main-frame commits\<close>

lemma CheckURL_passes_alias_urls [simp]:
  "CheckURL_passes mgr (c\<lparr>alias_urls := a\<rparr>) url = CheckURL_passes mgr c url"
  by (simp add: CheckURL_passes_def)

lemma AddAliasURL_each_accepted:
  "\<forall>u \<in> set us. CheckURL_passes mgr (contents s) u \<Longrightarrow>
   AddAliasURL_each mgr (us @ rest) s =
   AddAliasURL_each mgr rest
     (s\<lparr> contents := (contents s)\<lparr>alias_urls := alias_urls (contents s) @ us\<rparr>,
         events := events s @ concat (map (alias_broadcast mgr) us) \<rparr>)"
proof (induction us arbitrary: s)
  case Nil
  then show ?case by simp
next
  case (Cons u us)
  let ?s1 = "s\<lparr> contents := (contents s)\<lparr>alias_urls := alias_urls (contents s) @ [u]\<rparr>,
                 events := events s @ alias_broadcast mgr u \<rparr>"
  from Cons.prems have u: "CheckURL_passes mgr (contents s) u"
    and us: "\<forall>v \<in> set us. CheckURL_passes mgr (contents ?s1) v"
    by simp_all
  have "AddAliasURL_each mgr ((u # us) @ rest) s = AddAliasURL_each mgr (us @ rest) ?s1"
    by (simp add: AddAliasURL_pass [OF u])
  also note Cons.IH [OF us]
  finally show ?case by simp
qed

lemma AddAliasURL_each_rejected:
  "\<not> CheckURL_passes mgr (contents s) u \<Longrightarrow>
   AddAliasURL_each mgr (u # rest) s = AddAliasURL_each mgr [u] s"
  by (auto split: sum.splits dest: AddAliasURL_reject)

lemma AddAliasURL_each_rejected_Inr:
  "\<not> CheckURL_passes mgr (contents s) u \<Longrightarrow> AddAliasURL_each mgr [u] s = Inr s' \<Longrightarrow>
   prerendering_has_been_cancelled (contents s') \<and>
   alias_urls (contents s') = alias_urls (contents s)"
  by (auto split: sum.splits if_splits dest: AddAliasURL_reject)

lemma AddAliasURL_each_takeWhile:
  assumes p_def: "p = takeWhile (CheckURL_passes mgr (contents s)) redirects"
  shows
    "(p = redirects \<longrightarrow>
        AddAliasURL_each mgr redirects s =
          Inr (s\<lparr> contents := (contents s)\<lparr>alias_urls := alias_urls (contents s) @ redirects\<rparr>,
                  events := events s @ concat (map (alias_broadcast mgr) redirects) \<rparr>))
     \<and> (p \<noteq> redirects \<longrightarrow>
          AddAliasURL_each mgr redirects s =
            AddAliasURL_each mgr (take (Suc (length p)) redirects) s
          \<and> (AddAliasURL_each mgr redirects s = Inr s' \<longrightarrow>
               prerendering_has_been_cancelled (contents s') \<and>
               alias_urls (contents s') = alias_urls (contents s) @ p))"
proof (intro conjI impI)
  have pass: "\<forall>u \<in> set p. CheckURL_passes mgr (contents s) u"
    unfolding p_def by (auto dest: set_takeWhileD)
  let ?sp = "s\<lparr> contents := (contents s)\<lparr>alias_urls := alias_urls (contents s) @ p\<rparr>,
                 events := events s @ concat (map (alias_broadcast mgr) p) \<rparr>"
  {
    assume "p = redirects"
    with AddAliasURL_each_accepted [OF pass, of "[]"]
    show "AddAliasURL_each mgr redirects s =
          Inr (s\<lparr> contents := (contents s)\<lparr>alias_urls := alias_urls (contents s) @ redirects\<rparr>,
                  events := events s @ concat (map (alias_broadcast mgr) redirects) \<rparr>)"
      by simp
  }
  assume ne: "p \<noteq> redirects"
  define d where "d = dropWhile (CheckURL_passes mgr (contents s)) redirects"
  have split: "redirects = p @ d"
    by (simp add: p_def d_def)
  with ne have "d \<noteq> []" by auto
  then obtain u rest where d: "d = u # rest"
    by (cases d) auto
  have "\<not> CheckURL_passes mgr (contents s) (hd d)"
    unfolding d_def using \<open>d \<noteq> []\<close> [unfolded d_def] by (rule hd_dropWhile)
  then have rej: "\<not> CheckURL_passes mgr (contents ?sp) u"
    by (simp add: d)
  have red: "redirects = p @ u # rest"
    using split d by simp
  have tk: "take (Suc (length p)) redirects = p @ [u]"
    by (simp add: red)
  have full: "AddAliasURL_each mgr redirects s = AddAliasURL_each mgr [u] ?sp"
    using AddAliasURL_each_accepted [OF pass, of "u # rest"] AddAliasURL_each_rejected [OF rej, of rest]
    by (simp add: red)
  have part: "AddAliasURL_each mgr (p @ [u]) s = AddAliasURL_each mgr [u] ?sp"
    using AddAliasURL_each_accepted [OF pass, of "[u]"] by simp
  show "AddAliasURL_each mgr redirects s =
            AddAliasURL_each mgr (take (Suc (length p)) redirects) s"
    by (simp only: tk full part)
  {
    assume "AddAliasURL_each mgr redirects s = Inr s'"
    with full have "AddAliasURL_each mgr [u] ?sp = Inr s'" by simp
    from AddAliasURL_each_rejected_Inr [OF rej this]
    show "prerendering_has_been_cancelled (contents s')"
      "alias_urls (contents s') = alias_urls (contents s) @ p"
      by simp_all
  }
qed


text \<open>
  C6, as stated, fails. The started record below is not cancelled and its hidden session
  holds two navigation entries; another thread has already cancelled its (process,
  route) pair through the tracker with \<open>FINAL_STATUS_TIMED_OUT\<close>. The commit event
  cancels the record, and its final status is \<open>FINAL_STATUS_TIMED_OUT\<close>, not
  \<open>FINAL_STATUS_NEW_NAVIGATION_ENTRY\<close>.
\<close>

theorem DidNavigateMainFrame_counterexample:
  "prerender_contents (started_contents\<lparr>prerender_contents := Some (WebContents 2)\<rparr>) =
     Some (WebContents 2)
   \<and> GetEntryCount (WebContents 2) > 1
   \<and> \<not> prerendering_has_been_cancelled
         (started_contents\<lparr>prerender_contents := Some (WebContents 2)\<rparr>)
   \<and> DidNavigateMainFrame example_manager [GURL ''http'' ''//a.com/2'']
       (raced_system\<lparr>contents := started_contents\<lparr>prerender_contents := Some (WebContents 2)\<rparr>\<rparr>) =
       Inr \<lparr> contents = started_contents\<lparr> prerender_contents := Some (WebContents 2),
                                            final_status := FINAL_STATUS_TIMED_OUT,
                                            prerendering_has_been_cancelled := True,
                                            observer_list := [] \<rparr>,
             tracker = [((5, 9), FINAL_STATUS_TIMED_OUT)],
             events = [Manager_AddToHistory,
                       Manager_MoveEntryToPendingDelete FINAL_STATUS_TIMED_OUT,
                       Observer_OnPrerenderStop 0] \<rparr>
   \<and> final_status (started_contents\<lparr> prerender_contents := Some (WebContents 2),
                                      final_status := FINAL_STATUS_TIMED_OUT,
                                      prerendering_has_been_cancelled := True,
                                      observer_list := [] \<rparr>) \<noteq> FINAL_STATUS_NEW_NAVIGATION_ENTRY"
  by (simp add: DidNavigateMainFrame_def Destroy_unfold
      example_manager_def map_tracker_def raced_system_def started_contents_def
      new_contents_def PrerenderContents_new_def PrerenderTracker_TryCancel_def
      PrerenderTracker_GetFinalStatus_def)

text \<open>
  C6, amended. Let the record have a hidden session. If the session holds more than
  one navigation entry, a main-frame commit only calls \<open>Destroy\<close> with
  \<open>FINAL_STATUS_NEW_NAVIGATION_ENTRY\<close>: whenever it returns the record is cancelled and
  its alias list is what it was, so no redirect URL of the commit becomes an alias,
  whatever the list holds. An already cancelled record is left as it is; a record not
  yet cancelled and without a (process, route) pair is cancelled exactly when it has no
  final status yet and ends with \<open>FINAL_STATUS_NEW_NAVIGATION_ENTRY\<close>; a record not yet
  cancelled with a pair assigned ends with the status the tracker reports after
  \<open>TryCancel\<close>. If the session holds at most one entry, the redirect chain is handed to
  \<open>AddAliasURL\<close> in order: when every URL passes \<open>CheckURL\<close> all of them are appended to
  the aliases (and broadcast) in that order; otherwise the event does exactly what it
  does for the chain cut after its first rejected URL, the URLs before that one are
  appended in order, and the record ends cancelled.
\<close>

theorem DidNavigateMainFrame_effect:
  assumes "prerender_contents (contents s) = Some wc"
  shows
    "(GetEntryCount wc > 1 \<longrightarrow>
        (DidNavigateMainFrame mgr redirects s = Inr s' \<longrightarrow>
           prerendering_has_been_cancelled (contents s') \<and>
           alias_urls (contents s') = alias_urls (contents s))
        \<and> (prerendering_has_been_cancelled (contents s) \<longrightarrow>
             DidNavigateMainFrame mgr redirects s = Inr s)
        \<and> (\<not> prerendering_has_been_cancelled (contents s) \<and>
            (child_id (contents s) = - 1 \<or> route_id (contents s) = - 1) \<longrightarrow>
             ((\<exists>s1. DidNavigateMainFrame mgr redirects s = Inr s1) =
                (final_status (contents s) = FINAL_STATUS_MAX))
             \<and> (DidNavigateMainFrame mgr redirects s = Inr s' \<longrightarrow>
                  final_status (contents s') = FINAL_STATUS_NEW_NAVIGATION_ENTRY \<and>
                  tracker s' = tracker s))
        \<and> (\<not> prerendering_has_been_cancelled (contents s) \<and>
            child_id (contents s) \<noteq> - 1 \<and> route_id (contents s) \<noteq> - 1 \<and>
            DidNavigateMainFrame mgr redirects s = Inr s' \<longrightarrow>
             TryCancel (prerender_tracker mgr) (tracker s) (child_id (contents s))
               (route_id (contents s)) FINAL_STATUS_NEW_NAVIGATION_ENTRY = (True, tracker s')
             \<and> GetFinalStatus (prerender_tracker mgr) (tracker s') (child_id (contents s))
                 (route_id (contents s)) = Some (final_status (contents s'))))
     \<and> (GetEntryCount wc \<le> 1 \<longrightarrow>
          (takeWhile (CheckURL_passes mgr (contents s)) redirects = redirects \<longrightarrow>
             DidNavigateMainFrame mgr redirects s =
               Inr (s\<lparr> contents := (contents s)\<lparr>alias_urls := alias_urls (contents s) @ redirects\<rparr>,
                       events := events s @ concat (map (alias_broadcast mgr) redirects) \<rparr>))
          \<and> (takeWhile (CheckURL_passes mgr (contents s)) redirects \<noteq> redirects \<longrightarrow>
               DidNavigateMainFrame mgr redirects s =
                 DidNavigateMainFrame mgr
                   (take (Suc (length (takeWhile (CheckURL_passes mgr (contents s)) redirects)))
                      redirects) s
               \<and> (DidNavigateMainFrame mgr redirects s = Inr s' \<longrightarrow>
                    prerendering_has_been_cancelled (contents s') \<and>
                    alias_urls (contents s') =
                      alias_urls (contents s) @
                      takeWhile (CheckURL_passes mgr (contents s)) redirects)))"
proof (intro conjI impI)
  assume many: "GetEntryCount wc > 1"
  with assms have eq: "DidNavigateMainFrame mgr redirects s =
      Destroy mgr FINAL_STATUS_NEW_NAVIGATION_ENTRY s"
    by (simp add: DidNavigateMainFrame_def)
  show "prerendering_has_been_cancelled (contents s')"
    "alias_urls (contents s') = alias_urls (contents s)"
    if "DidNavigateMainFrame mgr redirects s = Inr s'"
    using that eq Destroy_Inr_cancelled [of mgr _ s s'] Destroy_Inr_alias_urls [of mgr _ s s']
    by simp_all
  show "DidNavigateMainFrame mgr redirects s = Inr s"
    if "prerendering_has_been_cancelled (contents s)"
    using that eq by (simp add: Destroy_cancelled)
  show "(\<exists>s1. DidNavigateMainFrame mgr redirects s = Inr s1) =
                (final_status (contents s) = FINAL_STATUS_MAX)"
    if "\<not> prerendering_has_been_cancelled (contents s) \<and>
            (child_id (contents s) = - 1 \<or> route_id (contents s) = - 1)"
    using that eq Destroy_returns_unassigned [of s mgr FINAL_STATUS_NEW_NAVIGATION_ENTRY]
    by simp
  show "final_status (contents s') = FINAL_STATUS_NEW_NAVIGATION_ENTRY" "tracker s' = tracker s"
    if "\<not> prerendering_has_been_cancelled (contents s) \<and>
            (child_id (contents s) = - 1 \<or> route_id (contents s) = - 1)"
      and "DidNavigateMainFrame mgr redirects s = Inr s'"
    using that eq Destroy_Inr_unassigned [of mgr FINAL_STATUS_NEW_NAVIGATION_ENTRY s s']
    by simp_all
  show "TryCancel (prerender_tracker mgr) (tracker s) (child_id (contents s))
               (route_id (contents s)) FINAL_STATUS_NEW_NAVIGATION_ENTRY = (True, tracker s')"
    "GetFinalStatus (prerender_tracker mgr) (tracker s') (child_id (contents s))
                 (route_id (contents s)) = Some (final_status (contents s'))"
    if "\<not> prerendering_has_been_cancelled (contents s) \<and>
            child_id (contents s) \<noteq> - 1 \<and> route_id (contents s) \<noteq> - 1 \<and>
            DidNavigateMainFrame mgr redirects s = Inr s'"
    using that eq Destroy_Inr_assigned [of mgr FINAL_STATUS_NEW_NAVIGATION_ENTRY s s']
    by simp_all
next
  assume few: "GetEntryCount wc \<le> 1"
  with assms have eq: "DidNavigateMainFrame mgr r s = AddAliasURL_each mgr r s" for r
    by (simp add: DidNavigateMainFrame_def)
  note tw = AddAliasURL_each_takeWhile [OF refl, of mgr s redirects s']
  show "DidNavigateMainFrame mgr redirects s =
               Inr (s\<lparr> contents := (contents s)\<lparr>alias_urls := alias_urls (contents s) @ redirects\<rparr>,
                       events := events s @ concat (map (alias_broadcast mgr) redirects) \<rparr>)"
    if "takeWhile (CheckURL_passes mgr (contents s)) redirects = redirects"
    using that tw unfolding eq by blast
  show "DidNavigateMainFrame mgr redirects s =
                 DidNavigateMainFrame mgr
                   (take (Suc (length (takeWhile (CheckURL_passes mgr (contents s)) redirects)))
                      redirects) s"
    if "takeWhile (CheckURL_passes mgr (contents s)) redirects \<noteq> redirects"
    using that tw unfolding eq by blast
  show "prerendering_has_been_cancelled (contents s')"
    "alias_urls (contents s') =
                      alias_urls (contents s) @
                      takeWhile (CheckURL_passes mgr (contents s)) redirects"
    if "takeWhile (CheckURL_passes mgr (contents s)) redirects \<noteq> redirects"
      and "DidNavigateMainFrame mgr redirects s = Inr s'"
    using that tw unfolding eq by blast+
qed


theorem DidNavigateMainFrame_effect_witness:
  "DidNavigateMainFrame example_manager
     [GURL ''http'' ''//a.com/2'', GURL ''http'' ''//visited.example/'', GURL ''http'' ''//a.com/3'']
     started_system =
     Inr \<lparr> contents = started_contents
                        \<lparr> alias_urls := [GURL ''http'' ''//a.com/'', GURL ''http'' ''//a.com/2''],
                          final_status := FINAL_STATUS_RECENTLY_VISITED,
                          prerendering_has_been_cancelled := True,
                          observer_list := [] \<rparr>,
           tracker = [((5, 9), FINAL_STATUS_RECENTLY_VISITED)],
           events = [Host_OnPrerenderAddAlias 1 (GURL ''http'' ''//a.com/2''),
                     Host_OnPrerenderAddAlias 2 (GURL ''http'' ''//a.com/2''),
                     Manager_AddToHistory,
                     Manager_MoveEntryToPendingDelete FINAL_STATUS_RECENTLY_VISITED,
                     Observer_OnPrerenderStop 0] \<rparr>
   \<and> DidNavigateMainFrame example_manager
       [GURL ''http'' ''//a.com/2'', GURL ''http'' ''//visited.example/'', GURL ''http'' ''//a.com/3'']
       started_system =
     DidNavigateMainFrame example_manager
       [GURL ''http'' ''//a.com/2'', GURL ''http'' ''//visited.example/''] started_system
   \<and> DidNavigateMainFrame example_manager [GURL ''http'' ''//a.com/2'']
       (started_system\<lparr>contents := started_contents\<lparr>prerender_contents := Some (WebContents 2)\<rparr>\<rparr>) =
     Inr \<lparr> contents = started_contents
                        \<lparr> prerender_contents := Some (WebContents 2),
                          final_status := FINAL_STATUS_NEW_NAVIGATION_ENTRY,
                          prerendering_has_been_cancelled := True,
                          observer_list := [] \<rparr>,
           tracker = [((5, 9), FINAL_STATUS_NEW_NAVIGATION_ENTRY)],
           events = [Manager_AddToHistory,
                     Manager_MoveEntryToPendingDelete FINAL_STATUS_NEW_NAVIGATION_ENTRY,
                     Observer_OnPrerenderStop 0] \<rparr>
   \<and> GetFinalStatus map_tracker [((5, 9), FINAL_STATUS_NEW_NAVIGATION_ENTRY)] 5 9 =
       Some FINAL_STATUS_NEW_NAVIGATION_ENTRY"
proof -
  let ?R = "[GURL ''http'' ''//a.com/2'', GURL ''http'' ''//visited.example/'',
             GURL ''http'' ''//a.com/3'']"
  let ?s2 = "started_system\<lparr>contents := started_contents\<lparr>prerender_contents := Some (WebContents 2)\<rparr>\<rparr>"
  let ?w2 = "\<lparr> contents = started_contents
                        \<lparr> prerender_contents := Some (WebContents 2),
                          final_status := FINAL_STATUS_NEW_NAVIGATION_ENTRY,
                          prerendering_has_been_cancelled := True,
                          observer_list := [] \<rparr>,
           tracker = [((5, 9), FINAL_STATUS_NEW_NAVIGATION_ENTRY)],
           events = [Manager_AddToHistory,
                     Manager_MoveEntryToPendingDelete FINAL_STATUS_NEW_NAVIGATION_ENTRY,
                     Observer_OnPrerenderStop 0] \<rparr> :: tracker_map system"
  note defs = DidNavigateMainFrame_def AddAliasURL_def CheckURL_def Destroy_unfold
    SchemeIs_def kHttpScheme_def kHttpsScheme_def
    example_manager_def map_tracker_def started_system_def started_contents_def
    new_contents_def PrerenderContents_new_def PrerenderTracker_TryCancel_def
    PrerenderTracker_GetFinalStatus_def
  have one: "prerender_contents (contents started_system) = Some (WebContents 1)"
    by (simp add: started_system_def started_contents_def)
  have two: "prerender_contents (contents ?s2) = Some (WebContents 2)"
    by simp
  have s2: "\<not> prerendering_has_been_cancelled (contents ?s2)"
    "child_id (contents ?s2) = 5" "route_id (contents ?s2) = 9"
    by (simp_all add: started_contents_def new_contents_def PrerenderContents_new_def)
  have tw: "takeWhile (CheckURL_passes example_manager (contents started_system)) ?R =
      [GURL ''http'' ''//a.com/2'']"
    by (simp add: CheckURL_passes_def SchemeIs_def kHttpScheme_def kHttpsScheme_def
        example_manager_def started_system_def started_contents_def new_contents_def
        PrerenderContents_new_def)
  have run1: "DidNavigateMainFrame example_manager ?R started_system =
     Inr \<lparr> contents = started_contents
                        \<lparr> alias_urls := [GURL ''http'' ''//a.com/'', GURL ''http'' ''//a.com/2''],
                          final_status := FINAL_STATUS_RECENTLY_VISITED,
                          prerendering_has_been_cancelled := True,
                          observer_list := [] \<rparr>,
           tracker = [((5, 9), FINAL_STATUS_RECENTLY_VISITED)],
           events = [Host_OnPrerenderAddAlias 1 (GURL ''http'' ''//a.com/2''),
                     Host_OnPrerenderAddAlias 2 (GURL ''http'' ''//a.com/2''),
                     Manager_AddToHistory,
                     Manager_MoveEntryToPendingDelete FINAL_STATUS_RECENTLY_VISITED,
                     Observer_OnPrerenderStop 0] \<rparr>"
    by (simp add: defs)
  have run2: "DidNavigateMainFrame example_manager [GURL ''http'' ''//a.com/2''] ?s2 = Inr ?w2"
    by (simp add: defs)
  from DidNavigateMainFrame_effect [OF one, of example_manager ?R] tw
  have cut: "DidNavigateMainFrame example_manager ?R started_system =
     DidNavigateMainFrame example_manager
       [GURL ''http'' ''//a.com/2'', GURL ''http'' ''//visited.example/''] started_system"
    by simp
  from DidNavigateMainFrame_effect [OF two, of example_manager "[GURL ''http'' ''//a.com/2'']" ?w2]
    s2 run2
  have adopt: "GetFinalStatus map_tracker [((5, 9), FINAL_STATUS_NEW_NAVIGATION_ENTRY)] 5 9 =
       Some FINAL_STATUS_NEW_NAVIGATION_ENTRY"
    by (simp add: example_manager_def)
  from run1 run2 cut adopt show ?thesis by simp
qed

subsection \<open>Match-complete replacement\<close>

lemma Replacement_Init_result:
  "Replacement_Init mgr s =
     (if (SchemeIs (prerender_url (contents s)) kHttpScheme \<or>
          SchemeIs (prerender_url (contents s)) kHttpsScheme) \<and>
         \<not> (SchemeIs (prerender_url (contents s)) kHttpsScheme \<and> \<not> https_allowed mgr)
      then Inr (True,
             s\<lparr> contents :=
                   (CreatePrerenderContents (prerender_url (contents s)) (referrer (contents s))
                      (origin (contents s)) (experiment_id (contents s)))
                   \<lparr> load_start_time := load_start_time (contents s),
                     session_storage_namespace_id := session_storage_namespace_id (contents s),
                     match_complete_status := MATCH_COMPLETE_REPLACEMENT_PENDING,
                     alias_urls := [prerender_url (contents s)] \<rparr>,
                 events := events s @ alias_broadcast mgr (prerender_url (contents s)) \<rparr>)
      else Inl (DCHECK_failed CheckURL_not_replacement_pending))"
  by (auto simp: Replacement_Init_def Init_def AddAliasURL_def CheckURL_def Let_def
      CreatePrerenderContents_def PrerenderContents_new_def alias_broadcast_def)

lemma front_Inr: "(front xs = Inr x) = (xs \<noteq> [] \<and> hd xs = x)"
  by (cases xs) (auto simp: front_def)

lemma CreateMatchCompleteReplacement_returns:
  "(\<exists>r. CreateMatchCompleteReplacement mgr s = Inr r) =
   ((SchemeIs (prerender_url (contents s)) kHttpScheme \<or>
     SchemeIs (prerender_url (contents s)) kHttpsScheme) \<and>
    \<not> (SchemeIs (prerender_url (contents s)) kHttpsScheme \<and> \<not> https_allowed mgr) \<and>
    alias_urls (contents s) \<noteq> [] \<and>
    hd (alias_urls (contents s)) = prerender_url (contents s))"
  by (cases "alias_urls (contents s)")
    (auto simp: CreateMatchCompleteReplacement_def Replacement_Init_result front_def)

lemma CreateMatchCompleteReplacement_Inr:
  assumes "CreateMatchCompleteReplacement mgr s = Inr (s', clone)"
  shows "\<exists>sn. Replacement_Init mgr s = Inr (True, sn) \<and>
              length (alias_urls (contents sn)) = 1 \<and>
              hd (alias_urls (contents sn)) = hd (alias_urls (contents s)) \<and>
              match_complete_status (contents sn) = MATCH_COMPLETE_REPLACEMENT_PENDING \<and>
              clone = (contents sn)\<lparr> alias_urls := alias_urls (contents s),
                                     match_complete_status := MATCH_COMPLETE_REPLACEMENT \<rparr> \<and>
              s' = \<lparr> contents = contents s, tracker = tracker sn,
                     events = events sn @
                       map Observer_OnPrerenderCreatedMatchCompleteReplacement
                         (observer_list (contents s)) \<rparr>"
  using assms
  by (auto simp: CreateMatchCompleteReplacement_def front_Inr Replacement_Init_result
      split: sum.splits prod.splits if_splits)


text \<open>
  C8. \<open>CreateMatchCompleteReplacement\<close> returns exactly when the record's URL passes
  the two scheme tests and the record's first alias is that URL. When it returns the
  original with a new record: at the point of the assertions, right after \<open>Init\<close>, the
  new record is a pending replacement whose alias list is the one-element list holding
  the original's first alias; the record returned has the original's whole alias list
  (so the same first alias), match-complete status \<open>MATCH_COMPLETE_REPLACEMENT\<close>, the
  original's URL, referrer, origin, experiment id, load start time and session storage
  namespace id, and neither a final status nor the cancelled flag; the original record
  is unchanged.
\<close>

theorem CreateMatchCompleteReplacement_clone:
  "((\<exists>r. CreateMatchCompleteReplacement mgr s = Inr r) =
      ((SchemeIs (prerender_url (contents s)) kHttpScheme \<or>
        SchemeIs (prerender_url (contents s)) kHttpsScheme) \<and>
       \<not> (SchemeIs (prerender_url (contents s)) kHttpsScheme \<and> \<not> https_allowed mgr) \<and>
       alias_urls (contents s) \<noteq> [] \<and>
       hd (alias_urls (contents s)) = prerender_url (contents s)))
   \<and> (CreateMatchCompleteReplacement mgr s = Inr (s', clone) \<longrightarrow>
        (\<exists>sn. Replacement_Init mgr s = Inr (True, sn) \<and>
              alias_urls (contents sn) = [hd (alias_urls (contents s))] \<and>
              match_complete_status (contents sn) = MATCH_COMPLETE_REPLACEMENT_PENDING)
        \<and> alias_urls (contents s) \<noteq> []
        \<and> alias_urls clone = alias_urls (contents s)
        \<and> hd (alias_urls clone) = hd (alias_urls (contents s))
        \<and> match_complete_status clone = MATCH_COMPLETE_REPLACEMENT
        \<and> prerender_url clone = prerender_url (contents s)
        \<and> referrer clone = referrer (contents s)
        \<and> origin clone = origin (contents s)
        \<and> experiment_id clone = experiment_id (contents s)
        \<and> load_start_time clone = load_start_time (contents s)
        \<and> session_storage_namespace_id clone = session_storage_namespace_id (contents s)
        \<and> final_status clone = FINAL_STATUS_MAX
        \<and> \<not> prerendering_has_been_cancelled clone
        \<and> contents s' = contents s)"
proof (intro conjI impI)
  show "(\<exists>r. CreateMatchCompleteReplacement mgr s = Inr r) =
      ((SchemeIs (prerender_url (contents s)) kHttpScheme \<or>
        SchemeIs (prerender_url (contents s)) kHttpsScheme) \<and>
       \<not> (SchemeIs (prerender_url (contents s)) kHttpsScheme \<and> \<not> https_allowed mgr) \<and>
       alias_urls (contents s) \<noteq> [] \<and>
       hd (alias_urls (contents s)) = prerender_url (contents s))"
    by (rule CreateMatchCompleteReplacement_returns)
next
  assume ok: "CreateMatchCompleteReplacement mgr s = Inr (s', clone)"
  then have ret: "alias_urls (contents s) \<noteq> []"
    "hd (alias_urls (contents s)) = prerender_url (contents s)"
    and tests: "(SchemeIs (prerender_url (contents s)) kHttpScheme \<or>
        SchemeIs (prerender_url (contents s)) kHttpsScheme) \<and>
       \<not> (SchemeIs (prerender_url (contents s)) kHttpsScheme \<and> \<not> https_allowed mgr)"
    using CreateMatchCompleteReplacement_returns [of mgr s] by blast+
  from CreateMatchCompleteReplacement_Inr [OF ok]
  obtain sn where sn: "Replacement_Init mgr s = Inr (True, sn)"
    and one: "length (alias_urls (contents sn)) = 1"
    and same: "hd (alias_urls (contents sn)) = hd (alias_urls (contents s))"
    and pend: "match_complete_status (contents sn) = MATCH_COMPLETE_REPLACEMENT_PENDING"
    and clone: "clone = (contents sn)\<lparr> alias_urls := alias_urls (contents s),
                                     match_complete_status := MATCH_COMPLETE_REPLACEMENT \<rparr>"
    and s': "s' = \<lparr> contents = contents s, tracker = tracker sn,
                     events = events sn @
                       map Observer_OnPrerenderCreatedMatchCompleteReplacement
                         (observer_list (contents s)) \<rparr>"
    by blast
  from sn tests have csn: "contents sn =
      (CreatePrerenderContents (prerender_url (contents s)) (referrer (contents s))
                      (origin (contents s)) (experiment_id (contents s)))
                   \<lparr> load_start_time := load_start_time (contents s),
                     session_storage_namespace_id := session_storage_namespace_id (contents s),
                     match_complete_status := MATCH_COMPLETE_REPLACEMENT_PENDING,
                     alias_urls := [prerender_url (contents s)] \<rparr>"
    by (auto simp: Replacement_Init_result)
  have "alias_urls (contents sn) = [hd (alias_urls (contents s))]"
    using csn ret by simp
  with sn pend
  show "\<exists>sn. Replacement_Init mgr s = Inr (True, sn) \<and>
              alias_urls (contents sn) = [hd (alias_urls (contents s))] \<and>
              match_complete_status (contents sn) = MATCH_COMPLETE_REPLACEMENT_PENDING"
    by blast
  show "alias_urls (contents s) \<noteq> []" by (rule ret)
  show "alias_urls clone = alias_urls (contents s)"
    "hd (alias_urls clone) = hd (alias_urls (contents s))"
    "match_complete_status clone = MATCH_COMPLETE_REPLACEMENT"
    by (simp_all add: clone)
  show "prerender_url clone = prerender_url (contents s)"
    "referrer clone = referrer (contents s)"
    "origin clone = origin (contents s)"
    "experiment_id clone = experiment_id (contents s)"
    "load_start_time clone = load_start_time (contents s)"
    "session_storage_namespace_id clone = session_storage_namespace_id (contents s)"
    "final_status clone = FINAL_STATUS_MAX"
    "\<not> prerendering_has_been_cancelled clone"
    by (simp_all add: clone csn CreatePrerenderContents_def PrerenderContents_new_def)
  show "contents s' = contents s"
    by (simp add: s')
qed

theorem CreateMatchCompleteReplacement_clone_witness:
  "CreateMatchCompleteReplacement example_manager
     (started_system\<lparr>contents := started_contents
        \<lparr>alias_urls := [GURL ''http'' ''//a.com/'', GURL ''http'' ''//a.com/redirected'']\<rparr>\<rparr>) =
     Inr (\<lparr> contents = started_contents
              \<lparr>alias_urls := [GURL ''http'' ''//a.com/'', GURL ''http'' ''//a.com/redirected'']\<rparr>,
            tracker = [((5, 9), FINAL_STATUS_MAX)],
            events = [Host_OnPrerenderAddAlias 1 (GURL ''http'' ''//a.com/''),
                      Host_OnPrerenderAddAlias 2 (GURL ''http'' ''//a.com/''),
                      Observer_OnPrerenderCreatedMatchCompleteReplacement 0] \<rparr>,
          new_contents
            \<lparr> session_storage_namespace_id := 3,
              match_complete_status := MATCH_COMPLETE_REPLACEMENT,
              alias_urls := [GURL ''http'' ''//a.com/'', GURL ''http'' ''//a.com/redirected''] \<rparr>)
   \<and> alias_urls (new_contents
            \<lparr> session_storage_namespace_id := 3,
              match_complete_status := MATCH_COMPLETE_REPLACEMENT,
              alias_urls := [GURL ''http'' ''//a.com/'', GURL ''http'' ''//a.com/redirected''] \<rparr>) =
       alias_urls (contents (started_system\<lparr>contents := started_contents
        \<lparr>alias_urls := [GURL ''http'' ''//a.com/'', GURL ''http'' ''//a.com/redirected'']\<rparr>\<rparr>))
   \<and> match_complete_status (new_contents
            \<lparr> session_storage_namespace_id := 3,
              match_complete_status := MATCH_COMPLETE_REPLACEMENT,
              alias_urls := [GURL ''http'' ''//a.com/'', GURL ''http'' ''//a.com/redirected''] \<rparr>) =
       MATCH_COMPLETE_REPLACEMENT"
proof -
  let ?o = "started_system\<lparr>contents := started_contents
        \<lparr>alias_urls := [GURL ''http'' ''//a.com/'', GURL ''http'' ''//a.com/redirected'']\<rparr>\<rparr>"
  let ?s' = "\<lparr> contents = started_contents
              \<lparr>alias_urls := [GURL ''http'' ''//a.com/'', GURL ''http'' ''//a.com/redirected'']\<rparr>,
            tracker = [((5, 9), FINAL_STATUS_MAX)],
            events = [Host_OnPrerenderAddAlias 1 (GURL ''http'' ''//a.com/''),
                      Host_OnPrerenderAddAlias 2 (GURL ''http'' ''//a.com/''),
                      Observer_OnPrerenderCreatedMatchCompleteReplacement 0] \<rparr>
            :: tracker_map system"
  let ?c = "new_contents
            \<lparr> session_storage_namespace_id := 3,
              match_complete_status := MATCH_COMPLETE_REPLACEMENT,
              alias_urls := [GURL ''http'' ''//a.com/'', GURL ''http'' ''//a.com/redirected''] \<rparr>"
  have run: "CreateMatchCompleteReplacement example_manager ?o = Inr (?s', ?c)"
    by (simp add: CreateMatchCompleteReplacement_def Replacement_Init_result front_def
        alias_broadcast_def CreatePrerenderContents_def SchemeIs_def kHttpScheme_def
        kHttpsScheme_def example_manager_def started_system_def started_contents_def
        new_contents_def PrerenderContents_new_def)
  from CreateMatchCompleteReplacement_clone [of example_manager ?o ?s' ?c] run
  have "alias_urls ?c = alias_urls (contents ?o)"
    "match_complete_status ?c = MATCH_COMPLETE_REPLACEMENT"
    by blast+
  with run show ?thesis by blast
qed

end
